theory Spec2Isabelle
  imports Complex_Main "HOL-Library.AList" "HOL-Library.Sublist"
begin

section \<open>Python values\<close>

text \<open>
  The validation layer of \<^verbatim>\<open>validation.py\<close> inspects arbitrary Python values with
  \<^verbatim>\<open>isinstance\<close>, truthiness tests, \<^verbatim>\<open>in\<close> and comparisons. The values that can
  occur are modelled by one datatype. Dictionaries are association lists in insertion
  order with string keys (raw schema definitions, keyword arguments and JSON-like
  arguments are all keyed by strings). A float is represented by the rational number it
  denotes (NaN and the infinities are outside the model). \<open>VKind\<close> is a member of the
  enumeration \<^verbatim>\<open>ParameterType\<close>; \<open>VOther c i\<close> is any other object, of a class
  named \<open>c\<close> that is unrelated to the classes above, with object identity \<open>i\<close>.
\<close>

datatype ParameterType = STRING | NUMBER | BOOLEAN | ARRAY | OBJECT | ENUM

datatype pyval =
    VNone
  | VBool bool
  | VInt int
  | VFloat rat
  | VStr string
  | VList "pyval list"
  | VDict "(string \<times> pyval) list"
  | VKind ParameterType
  | VOther string nat

text \<open>The value of an enumeration member (\<^verbatim>\<open>ParameterType.STRING.value\<close> and so on).\<close>

fun kind_value :: "ParameterType \<Rightarrow> string" where
  "kind_value STRING = ''string''"
| "kind_value NUMBER = ''number''"
| "kind_value BOOLEAN = ''boolean''"
| "kind_value ARRAY = ''array''"
| "kind_value OBJECT = ''object''"
| "kind_value ENUM = ''enum''"

fun kind_name :: "ParameterType \<Rightarrow> string" where
  "kind_name STRING = ''STRING''"
| "kind_name NUMBER = ''NUMBER''"
| "kind_name BOOLEAN = ''BOOLEAN''"
| "kind_name ARRAY = ''ARRAY''"
| "kind_name OBJECT = ''OBJECT''"
| "kind_name ENUM = ''ENUM''"

text \<open>Truthiness, as \<^verbatim>\<open>if x:\<close> and \<^verbatim>\<open>x or y\<close> test it.\<close>

fun truthy :: "pyval \<Rightarrow> bool" where
  "truthy VNone = False"
| "truthy (VBool b) = b"
| "truthy (VInt i) = (i \<noteq> 0)"
| "truthy (VFloat r) = (r \<noteq> 0)"
| "truthy (VStr s) = (s \<noteq> [])"
| "truthy (VList xs) = (xs \<noteq> [])"
| "truthy (VDict d) = (d \<noteq> [])"
| "truthy (VKind k) = True"
| "truthy (VOther c i) = True"

text \<open>
  \<^verbatim>\<open>isinstance(v, (int, float))\<close>: \<^verbatim>\<open>bool\<close> is a subclass of \<^verbatim>\<open>int\<close> in Python, so a
  boolean is an instance of \<^verbatim>\<open>int\<close>. \<open>num_val\<close> is the number a numeric value denotes
  in comparisons (\<^verbatim>\<open>True\<close> is 1, \<^verbatim>\<open>False\<close> is 0).
\<close>

fun num_val :: "pyval \<Rightarrow> rat option" where
  "num_val (VBool b) = Some (if b then 1 else 0)"
| "num_val (VInt i) = Some (of_int i)"
| "num_val (VFloat r) = Some r"
| "num_val v = None"

definition isinstance_int_float :: "pyval \<Rightarrow> bool" where
  "isinstance_int_float v = (case v of VBool b \<Rightarrow> True | VInt i \<Rightarrow> True | VFloat r \<Rightarrow> True | _ \<Rightarrow> False)"

definition isinstance_bool :: "pyval \<Rightarrow> bool" where
  "isinstance_bool v = (case v of VBool b \<Rightarrow> True | _ \<Rightarrow> False)"

text \<open>
  Equality \<^verbatim>\<open>==\<close>: numbers compare by value across \<^verbatim>\<open>bool\<close>, \<^verbatim>\<open>int\<close> and \<^verbatim>\<open>float\<close>,
  lists elementwise, dictionaries regardless of order, other objects by identity.
\<close>

function py_eq :: "pyval \<Rightarrow> pyval \<Rightarrow> bool"
  and py_eq_list :: "pyval list \<Rightarrow> pyval list \<Rightarrow> bool"
  and py_eq_dict :: "(string \<times> pyval) list \<Rightarrow> (string \<times> pyval) list \<Rightarrow> bool"
where
  "py_eq v w =
     (case v of
        VList xs \<Rightarrow> (case w of VList ys \<Rightarrow> py_eq_list xs ys | _ \<Rightarrow> False)
      | VDict d \<Rightarrow> (case w of VDict e \<Rightarrow> length d = length e \<and> py_eq_dict d e | _ \<Rightarrow> False)
      | VStr s \<Rightarrow> w = VStr s
      | VNone \<Rightarrow> w = VNone
      | VKind k \<Rightarrow> w = VKind k
      | VOther c i \<Rightarrow> w = VOther c i
      | _ \<Rightarrow> (case num_val w of None \<Rightarrow> False | Some r \<Rightarrow> num_val v = Some r))"
| "py_eq_list [] ys = (ys = [])"
| "py_eq_list (x # xs) ys = (case ys of [] \<Rightarrow> False | y # ys' \<Rightarrow> py_eq x y \<and> py_eq_list xs ys')"
| "py_eq_dict [] e = True"
| "py_eq_dict (kv # d) e =
     (case map_of e (fst kv) of None \<Rightarrow> False | Some w \<Rightarrow> py_eq (snd kv) w \<and> py_eq_dict d e)"
  by pat_completeness auto
termination
  by (relation "measure (\<lambda>x. case x of
        Inl (v, w) \<Rightarrow> size v
      | Inr (Inl (xs, ys)) \<Rightarrow> size_list size xs
      | Inr (Inr (d, e)) \<Rightarrow> size_list (size_prod (\<lambda>k. 0) size) d)")
     auto

declare py_eq.simps [simp del]

text \<open>Membership \<^verbatim>\<open>v in xs\<close> for a list: identity or equality with some element.\<close>

definition py_in_list :: "pyval \<Rightarrow> pyval list \<Rightarrow> bool" where
  "py_in_list v xs = list_ex (\<lambda>x. py_eq v x) xs"

section \<open>Text with unrendered values\<close>

text \<open>
  Messages are built by f-strings. \<^verbatim>\<open>str\<close> of a string, an integer, a boolean, \<^verbatim>\<open>None\<close>
  and an enumeration member is spelled out; the rendering of every other value (the
  shortest-repr of a float, the \<^verbatim>\<open>repr\<close> of the elements of a list, the address of an
  object) is left as a single symbolic character \<open>StrOf v\<close> (\<open>ReprOf v\<close> for \<^verbatim>\<open>repr\<close>),
  so that a message is a string over ordinary characters and such holes.
\<close>

datatype pychar = Chr char | StrOf pyval | ReprOf pyval

type_synonym pytext = "pychar list"

definition text_of :: "string \<Rightarrow> pytext" where
  "text_of s = map Chr s"

fun digits :: "nat \<Rightarrow> string" where
  "digits n = (if n < 10 then [''0123456789'' ! n] else digits (n div 10) @ [''0123456789'' ! (n mod 10)])"

declare digits.simps [simp del]

definition str_int :: "int \<Rightarrow> string" where
  "str_int i = (if i < 0 then CHR ''-'' # digits (nat (- i)) else digits (nat i))"

fun py_str :: "pyval \<Rightarrow> pytext" where
  "py_str VNone = text_of ''None''"
| "py_str (VBool b) = text_of (if b then ''True'' else ''False'')"
| "py_str (VInt i) = text_of (str_int i)"
| "py_str (VStr s) = text_of s"
| "py_str (VKind k) = text_of (''ParameterType.'' @ kind_name k)"
| "py_str v = [StrOf v]"

text \<open>The single quote character, for messages that end or begin with one.\<close>

definition quote :: string where
  "quote = [CHR 0x27]"

text \<open>\<^verbatim>\<open>str(type(v))\<close>, as the f-string \<^verbatim>\<open>{type(value)}\<close> renders it.\<close>

fun type_str :: "pyval \<Rightarrow> string" where
  "type_str VNone = ''<class 'NoneType'>''"
| "type_str (VBool b) = ''<class 'bool'>''"
| "type_str (VInt i) = ''<class 'int'>''"
| "type_str (VFloat r) = ''<class 'float'>''"
| "type_str (VStr s) = ''<class 'str'>''"
| "type_str (VList xs) = ''<class 'list'>''"
| "type_str (VDict d) = ''<class 'dict'>''"
| "type_str (VKind k) = ''<enum 'ParameterType'>''"
| "type_str (VOther c i) = ''<class '' @ quote @ c @ quote @ ''>''"

section \<open>The match primitive \<^verbatim>\<open>re.match\<close>\<close>

text \<open>
  \<^verbatim>\<open>re.match(pattern, value)\<close> belongs to Python's standard library. It looks for a
  match that starts at position 0 of the value and may end anywhere, and returns a match
  object (truthy) or \<^verbatim>\<open>None\<close>. Its result is computed here for the patterns made of
  literal characters, \<^verbatim>\<open>.\<close>, the anchors \<^verbatim>\<open>^\<close> and \<^verbatim>\<open>$\<close>, character sets \<^verbatim>\<open>[...]\<close>
  with ranges and negation, and the greedy quantifiers \<^verbatim>\<open>*\<close>, \<^verbatim>\<open>+\<close> and \<^verbatim>\<open>?\<close>.
  \<open>parse_re\<close> returns \<open>None\<close> on every other pattern (groups, alternation, escapes,
  counted, lazy and possessive repeats, and the patterns the library rejects); for those,
  and for a first argument that is not a string, the result is taken from a parameter
  \<open>lib\<close> that stands for the library.
\<close>

datatype re_atom = AnyChar | Lit char | CharSet bool "(char \<times> char) list"

datatype re_quant = Once | Star | Plus | Opt

datatype re_item = AtBeginning | AtEnd | Rep re_atom re_quant

definition newline :: char where
  "newline = CHR 0x0A"

definition backslash :: char where
  "backslash = CHR 0x5C"

definition in_range :: "char \<Rightarrow> char \<times> char \<Rightarrow> bool" where
  "in_range c r = ((of_char (fst r) :: nat) \<le> of_char c \<and> (of_char c :: nat) \<le> of_char (snd r))"

fun atom_ok :: "re_atom \<Rightarrow> char \<Rightarrow> bool" where
  "atom_ok AnyChar c = (c \<noteq> newline)"
| "atom_ok (Lit l) c = (c = l)"
| "atom_ok (CharSet negated rs) c = (list_ex (in_range c) rs \<noteq> negated)"

text \<open>
  \<open>re_run r b s\<close>: some prefix of \<open>s\<close> matches the items \<open>r\<close>; \<open>b\<close> tells whether \<open>s\<close>
  starts at position 0 of the value. \<^verbatim>\<open>^\<close> matches at position 0 only, \<^verbatim>\<open>$\<close> at the end
  of the value or before a final newline.
\<close>

fun re_run :: "re_item list \<Rightarrow> bool \<Rightarrow> string \<Rightarrow> bool" where
  "re_run [] b s = True"
| "re_run (AtBeginning # r) b s = (b \<and> re_run r b s)"
| "re_run (AtEnd # r) b s = ((s = [] \<or> s = [newline]) \<and> re_run r b s)"
| "re_run (Rep a Once # r) b s =
     (case s of [] \<Rightarrow> False | c # cs \<Rightarrow> atom_ok a c \<and> re_run r False cs)"
| "re_run (Rep a Opt # r) b s =
     (re_run r b s \<or> (case s of [] \<Rightarrow> False | c # cs \<Rightarrow> atom_ok a c \<and> re_run r False cs))"
| "re_run (Rep a Star # r) b s =
     (re_run r b s \<or>
      (case s of [] \<Rightarrow> False | c # cs \<Rightarrow> atom_ok a c \<and> re_run (Rep a Star # r) False cs))"
| "re_run (Rep a Plus # r) b s =
     (case s of [] \<Rightarrow> False | c # cs \<Rightarrow> atom_ok a c \<and> re_run (Rep a Star # r) False cs)"

definition is_quant :: "char \<Rightarrow> bool" where
  "is_quant c = (c = CHR ''*'' \<or> c = CHR ''+'' \<or> c = CHR ''?'')"

definition quant_of :: "char \<Rightarrow> re_quant" where
  "quant_of c = (if c = CHR ''*'' then Star else if c = CHR ''+'' then Plus else Opt)"

definition unsupported :: "char \<Rightarrow> bool" where
  "unsupported c = (is_quant c \<or> c = CHR ''{'' \<or> c = CHR ''}'' \<or> c = CHR ''('' \<or> c = CHR '')''
     \<or> c = CHR ''|'' \<or> c = CHR '']'' \<or> c = backslash)"

text \<open>The members of a character set, up to the closing bracket.\<close>

fun parse_set :: "string \<Rightarrow> (char \<times> char) list \<Rightarrow> ((char \<times> char) list \<times> string) option" where
  "parse_set [] acc = None"
| "parse_set (c # cs) acc =
     (if c = CHR '']'' then (if acc = [] then None else Some (rev acc, cs))
      else if c = CHR ''['' \<or> c = backslash then None
      else (case cs of
              d # e # rest \<Rightarrow>
                (if d = CHR ''-'' \<and> e \<noteq> CHR '']'' then
                   (if e = CHR ''['' \<or> e = backslash \<or> (of_char e :: nat) < of_char c then None
                    else parse_set rest ((c, e) # acc))
                 else parse_set cs ((c, c) # acc))
            | _ \<Rightarrow> parse_set cs ((c, c) # acc)))"

declare parse_set.simps [simp del]

definition with_quant :: "re_atom \<Rightarrow> string \<Rightarrow> (re_item \<times> string) option" where
  "with_quant a rest =
     (case rest of
        [] \<Rightarrow> Some (Rep a Once, [])
      | q # rest' \<Rightarrow>
          (if is_quant q then
             (case rest' of
                [] \<Rightarrow> Some (Rep a (quant_of q), rest')
              | q' # rest'' \<Rightarrow> if is_quant q' then None else Some (Rep a (quant_of q), rest'))
           else Some (Rep a Once, rest)))"

definition parse_item :: "char \<Rightarrow> string \<Rightarrow> (re_item \<times> string) option" where
  "parse_item c cs =
     (if c = CHR ''^'' \<or> c = CHR ''$'' then
        (case cs of
           [] \<Rightarrow> Some (if c = CHR ''^'' then AtBeginning else AtEnd, cs)
         | q # rest \<Rightarrow> if is_quant q then None
                      else Some (if c = CHR ''^'' then AtBeginning else AtEnd, cs))
      else if unsupported c then None
      else if c = CHR ''['' then
        (case cs of
           [] \<Rightarrow> None
         | n # cs' \<Rightarrow>
             (case parse_set (if n = CHR ''^'' then cs' else cs) [] of
                None \<Rightarrow> None
              | Some (rs, rest) \<Rightarrow> with_quant (CharSet (n = CHR ''^'') rs) rest))
      else with_quant (if c = CHR ''.'' then AnyChar else Lit c) cs)"

lemma parse_set_shorter: "parse_set s acc = Some (rs, rest) \<Longrightarrow> length rest < length s"
proof (induction "length s" arbitrary: s acc rule: less_induct)
  case less
  show ?case
  proof (cases s)
    case Nil
    with less.prems show ?thesis by (simp add: parse_set.simps(1))
  next
    case (Cons c cs)
    note s = this
    show ?thesis
    proof (cases "c = CHR '']''")
      case True
      from less.prems have "rest = cs"
        unfolding s by (subst (asm) parse_set.simps(2)) (simp add: True split: if_splits)
      then show ?thesis by (simp add: s)
    next
      case nb: False
      show ?thesis
      proof (cases "\<exists>e r. cs = CHR ''-'' # e # r \<and> e \<noteq> CHR '']''")
        case True
        then obtain e r where cs: "cs = CHR ''-'' # e # r" and e: "e \<noteq> CHR '']''"
          by blast
        from less.prems have "parse_set r ((c, e) # acc) = Some (rs, rest)"
          unfolding s cs by (subst (asm) parse_set.simps(2)) (simp add: nb e split: if_splits)
        then have "length rest < length r"
          by (rule less.hyps [rotated]) (simp add: s cs)
        then show ?thesis by (simp add: s cs)
      next
        case False
        have "parse_set (c # cs) acc =
              (if c = CHR ''['' \<or> c = backslash then None else parse_set cs ((c, c) # acc))"
          by (subst parse_set.simps(2)) (use nb False in \<open>auto split: list.splits\<close>)
        with less.prems have "parse_set cs ((c, c) # acc) = Some (rs, rest)"
          unfolding s by (simp split: if_splits)
        then have "length rest < length cs"
          by (rule less.hyps [rotated]) (simp add: s)
        then show ?thesis by (simp add: s)
      qed
    qed
  qed
qed

lemma with_quant_shorter: "with_quant a s = Some (it, rest) \<Longrightarrow> length rest \<le> length s"
  by (auto simp: with_quant_def split: if_splits list.splits)

lemma parse_item_shorter:
  assumes "parse_item c cs = Some (it, rest)"
  shows "length rest \<le> length cs"
proof (cases "c = CHR ''^'' \<or> c = CHR ''$''")
  case True
  with assms show ?thesis
    by (auto simp: parse_item_def split: list.splits if_splits)
next
  case anchor: False
  show ?thesis
  proof (cases "c = CHR ''[''")
    case True
    with assms anchor obtain n cs' rs rest' where cs: "cs = n # cs'"
      and ps: "parse_set (if n = CHR ''^'' then cs' else cs) [] = Some (rs, rest')"
      and wq: "with_quant (CharSet (n = CHR ''^'') rs) rest' = Some (it, rest)"
      by (auto simp: parse_item_def split: list.splits if_splits option.splits)
    from ps have "length rest' < length cs"
      by (auto dest: parse_set_shorter simp: cs split: if_splits)
    with with_quant_shorter [OF wq] show ?thesis by simp
  next
    case False
    with assms anchor have "with_quant (if c = CHR ''.'' then AnyChar else Lit c) cs = Some (it, rest)"
      by (simp add: parse_item_def split: if_splits)
    then show ?thesis by (rule with_quant_shorter)
  qed
qed

function parse_re :: "string \<Rightarrow> re_item list option" where
  "parse_re [] = Some []"
| "parse_re (c # cs) =
     (case parse_item c cs of
        None \<Rightarrow> None
      | Some (it, rest) \<Rightarrow> (case parse_re rest of None \<Rightarrow> None | Some r \<Rightarrow> Some (it # r)))"
  by pat_completeness auto
termination
proof (relation "measure length")
  show "wf (measure length)" by simp
next
  fix c cs x2 x y
  assume "parse_item c cs = Some x2" and "(x, y) = x2"
  then have "parse_item c cs = Some (x, y)" by simp
  then have "length y \<le> length cs" by (rule parse_item_shorter)
  then show "(y, c # cs) \<in> measure length" by simp
qed

text \<open>
  What a call of \<^verbatim>\<open>re.match\<close> does: it returns a match object or \<^verbatim>\<open>None\<close>
  (\<open>Match True\<close>, \<open>Match False\<close>), or raises \<^verbatim>\<open>re.error\<close> on an invalid pattern, or
  \<^verbatim>\<open>TypeError\<close> on an argument of the wrong type.
\<close>

datatype match_outcome = Match bool | Raises_re_error | Raises_TypeError

type_synonym re_library = "pyval \<Rightarrow> string \<Rightarrow> match_outcome"

definition re_match :: "re_library \<Rightarrow> pyval \<Rightarrow> string \<Rightarrow> match_outcome" where
  "re_match lib pattern s =
     (case pattern of
        VStr p \<Rightarrow> (case parse_re p of None \<Rightarrow> lib pattern s | Some r \<Rightarrow> Match (re_run r True s))
      | _ \<Rightarrow> lib pattern s)"

section \<open>Exceptions\<close>

text \<open>
  An exception raised by a registered callable: whether its class derives from
  \<^verbatim>\<open>Exception\<close> (\<^verbatim>\<open>KeyboardInterrupt\<close> and \<^verbatim>\<open>SystemExit\<close> do not), the name of the
  class, and \<^verbatim>\<open>str\<close> of the exception.
\<close>

datatype pyexc = Exc (derives_Exception: bool) (exc_class: string) (str_exc: pytext)

text \<open>
  The exceptions that leave the core, with the text of their message. \<open>TypeError\<close>,
  \<open>AttributeError\<close> and \<open>KeyError\<close> are raised by the interpreter on ill-typed raw
  definitions, \<open>ReError\<close> is \<^verbatim>\<open>re.error\<close>; their messages are never inspected and are
  not kept. \<open>Raised e\<close> is an exception of a registered callable that nothing catches.
\<close>

datatype pyerror =
    ValidationError pytext
  | ValueError pytext
  | RuntimeError pytext
  | TypeError
  | AttributeError
  | KeyError
  | ReError
  | Raised pyexc

section \<open>Operators on values\<close>

text \<open>\<^verbatim>\<open>a < b\<close> where \<open>a\<close> is a number: defined between numbers, a \<^verbatim>\<open>TypeError\<close> otherwise.\<close>

definition py_lt :: "pyval \<Rightarrow> pyval \<Rightarrow> pyerror + bool" where
  "py_lt a b =
     (case num_val a of
        None \<Rightarrow> Inl TypeError
      | Some x \<Rightarrow> (case num_val b of None \<Rightarrow> Inl TypeError | Some y \<Rightarrow> Inr (x < y)))"

fun is_substring :: "string \<Rightarrow> string \<Rightarrow> bool" where
  "is_substring k [] = (k = [])"
| "is_substring k (c # cs) = (prefix k (c # cs) \<or> is_substring k cs)"

text \<open>\<^verbatim>\<open>k in d\<close> for a dictionary with string keys; an unhashable \<open>k\<close> raises.\<close>

definition dict_has :: "(string \<times> pyval) list \<Rightarrow> pyval \<Rightarrow> pyerror + bool" where
  "dict_has d k =
     (case k of
        VStr s \<Rightarrow> Inr (map_of d s \<noteq> None)
      | VList xs \<Rightarrow> Inl TypeError
      | VDict e \<Rightarrow> Inl TypeError
      | _ \<Rightarrow> Inr False)"

text \<open>\<^verbatim>\<open>v in c\<close>.\<close>

definition py_in :: "pyval \<Rightarrow> pyval \<Rightarrow> pyerror + bool" where
  "py_in v c =
     (case c of
        VList xs \<Rightarrow> Inr (py_in_list v xs)
      | VDict d \<Rightarrow> dict_has d v
      | VStr s \<Rightarrow> (case v of VStr k \<Rightarrow> Inr (is_substring k s) | _ \<Rightarrow> Inl TypeError)
      | _ \<Rightarrow> Inl TypeError)"

text \<open>\<^verbatim>\<open>c[k]\<close> for a string \<open>k\<close>.\<close>

definition py_getitem :: "pyval \<Rightarrow> string \<Rightarrow> pyerror + pyval" where
  "py_getitem c k =
     (case c of
        VDict d \<Rightarrow> (case map_of d k of None \<Rightarrow> Inl KeyError | Some v \<Rightarrow> Inr v)
      | _ \<Rightarrow> Inl TypeError)"

text \<open>The elements a \<^verbatim>\<open>for\<close> loop takes from a value.\<close>

definition py_iter :: "pyval \<Rightarrow> pyerror + pyval list" where
  "py_iter v =
     (case v of
        VList xs \<Rightarrow> Inr xs
      | VStr s \<Rightarrow> Inr (map (\<lambda>c. VStr [c]) s)
      | VDict d \<Rightarrow> Inr (map (\<lambda>kv. VStr (fst kv)) d)
      | _ \<Rightarrow> Inl TypeError)"

text \<open>
  \<^verbatim>\<open>ParameterType(x)\<close>: the member whose value is \<open>x\<close>, the member itself when \<open>x\<close>
  is one, a \<^verbatim>\<open>ValueError\<close> otherwise.
\<close>

definition ParameterType_of :: "pyval \<Rightarrow> pyerror + ParameterType" where
  "ParameterType_of x =
     (case x of
        VKind k \<Rightarrow> Inr k
      | VStr s \<Rightarrow>
          (if s = ''string'' then Inr STRING
           else if s = ''number'' then Inr NUMBER
           else if s = ''boolean'' then Inr BOOLEAN
           else if s = ''array'' then Inr ARRAY
           else if s = ''object'' then Inr OBJECT
           else if s = ''enum'' then Inr ENUM
           else Inl (ValueError (ReprOf x # text_of '' is not a valid ParameterType'')))
      | _ \<Rightarrow> Inl (ValueError (ReprOf x # text_of '' is not a valid ParameterType'')))"

section \<open>\<^verbatim>\<open>validation.py\<close>: ParameterSchema\<close>

text \<open>
  The fields hold whatever values the constructor was given; \<open>ps_type\<close> is a member of
  \<^verbatim>\<open>ParameterType\<close> when the constructor received a member or one of the six kind strings.
\<close>

record ParameterSchema =
  ps_type :: pyval
  ps_description :: pyval
  ps_required :: pyval
  ps_minimum :: pyval
  ps_maximum :: pyval
  ps_pattern :: pyval
  ps_enum_values :: pyval
  ps_items :: pyval
  ps_properties :: pyval

definition param_keys :: "string list" where
  "param_keys = [''type'', ''description'', ''required'', ''minimum'', ''maximum'', ''pattern'',
     ''enum_values'', ''items'', ''properties'']"

definition kwarg :: "(string \<times> pyval) list \<Rightarrow> string \<Rightarrow> pyval \<Rightarrow> pyval" where
  "kwarg kw k dflt = (case map_of kw k of None \<Rightarrow> dflt | Some v \<Rightarrow> v)"

text \<open>
  \<^verbatim>\<open>ParameterSchema(**kw)\<close>: binding the keyword arguments fails with a \<^verbatim>\<open>TypeError\<close> on
  an unexpected keyword and when \<^verbatim>\<open>type\<close> or \<^verbatim>\<open>description\<close> is missing; the body
  converts a string \<^verbatim>\<open>type\<close> with \<^verbatim>\<open>ParameterType(type)\<close> and stores the rest.
\<close>

definition ParameterSchema_init :: "(string \<times> pyval) list \<Rightarrow> pyerror + ParameterSchema" where
  "ParameterSchema_init kw =
     (if \<not> list_all (\<lambda>k. k \<in> set param_keys) (map fst kw) then Inl TypeError
      else case map_of kw ''type'' of
        None \<Rightarrow> Inl TypeError
      | Some t \<Rightarrow>
          (case map_of kw ''description'' of
             None \<Rightarrow> Inl TypeError
           | Some d \<Rightarrow>
               (case (case t of VStr s \<Rightarrow> map_sum id VKind (ParameterType_of t) | _ \<Rightarrow> Inr t) of
                  Inl e \<Rightarrow> Inl e
                | Inr ty \<Rightarrow>
                    Inr \<lparr>ps_type = ty, ps_description = d,
                         ps_required = kwarg kw ''required'' (VBool False),
                         ps_minimum = kwarg kw ''minimum'' VNone,
                         ps_maximum = kwarg kw ''maximum'' VNone,
                         ps_pattern = kwarg kw ''pattern'' VNone,
                         ps_enum_values = kwarg kw ''enum_values'' VNone,
                         ps_items = kwarg kw ''items'' VNone,
                         ps_properties = kwarg kw ''properties'' VNone\<rparr>)))"

lemma map_of_size: "map_of d k = Some v \<Longrightarrow> size v < size (VDict d)"
  by (induction d) (auto split: if_splits)

text \<open>
  The branches of \<^verbatim>\<open>ParameterSchema.validate\<close> that do not recurse, one per kind:
  the bodies under \<^verbatim>\<open>if self.type == ParameterType.STRING\<close>, \<^verbatim>\<open>NUMBER\<close>, \<^verbatim>\<open>BOOLEAN\<close>
  and \<^verbatim>\<open>ENUM\<close>. \<open>Inr ()\<close> is a normal return, \<open>Inl e\<close> the exception raised.
\<close>

definition validate_string :: "re_library \<Rightarrow> ParameterSchema \<Rightarrow> pyval \<Rightarrow> pyerror + unit" where
  "validate_string lib self val =
     (case val of
        VStr s \<Rightarrow>
          (if truthy (ps_pattern self) then
             (case re_match lib (ps_pattern self) s of
                Raises_re_error \<Rightarrow> Inl ReError
              | Raises_TypeError \<Rightarrow> Inl TypeError
              | Match m \<Rightarrow>
                  if \<not> m then Inl (ValidationError
                    (text_of ''String does not match pattern: '' @ py_str (ps_pattern self)))
                  else Inr ())
           else Inr ())
      | _ \<Rightarrow> Inl (ValidationError (text_of ''Expected string, got '' @ text_of (type_str val))))"

definition validate_number :: "ParameterSchema \<Rightarrow> pyval \<Rightarrow> pyerror + unit" where
  "validate_number self val =
     (if \<not> isinstance_int_float val then
        Inl (ValidationError (text_of ''Expected number, got '' @ text_of (type_str val)))
      else
        (case (if ps_minimum self \<noteq> VNone then py_lt val (ps_minimum self) else Inr False) of
           Inl e \<Rightarrow> Inl e
         | Inr too_small \<Rightarrow>
             if too_small then Inl (ValidationError
               (text_of ''Value '' @ py_str val @ text_of '' is less than minimum ''
                  @ py_str (ps_minimum self)))
             else
               (case (if ps_maximum self \<noteq> VNone then py_lt (ps_maximum self) val
                      else Inr False) of
                  Inl e \<Rightarrow> Inl e
                | Inr too_big \<Rightarrow>
                    if too_big then Inl (ValidationError
                      (text_of ''Value '' @ py_str val @ text_of '' is greater than maximum ''
                         @ py_str (ps_maximum self)))
                    else Inr ())))"

definition validate_boolean :: "ParameterSchema \<Rightarrow> pyval \<Rightarrow> pyerror + unit" where
  "validate_boolean self val =
     (if \<not> isinstance_bool val then
        Inl (ValidationError (text_of ''Expected boolean, got '' @ text_of (type_str val)))
      else Inr ())"

definition validate_enum :: "ParameterSchema \<Rightarrow> pyval \<Rightarrow> pyerror + unit" where
  "validate_enum self val =
     (if ps_enum_values self = VNone then
        Inl (ValidationError (text_of ''Enum values not specified in schema''))
      else
        (case py_in val (ps_enum_values self) of
           Inl e \<Rightarrow> Inl e
         | Inr found \<Rightarrow>
             if \<not> found then Inl (ValidationError
               (text_of ''Value '' @ py_str val @ text_of '' not in enum values: ''
                  @ py_str (ps_enum_values self)))
             else Inr ()))"

text \<open>
  \<open>validate\<close> is \<^verbatim>\<open>ParameterSchema.validate\<close>. \<open>validate_items\<close> is the loop
  \<^verbatim>\<open>for item in value\<close> of the array branch, \<open>validate_properties\<close> the loop over
  \<^verbatim>\<open>self.properties.items()\<close> of the object branch.
\<close>

function validate :: "re_library \<Rightarrow> ParameterSchema \<Rightarrow> pyval \<Rightarrow> pyerror + unit"
  and validate_items :: "re_library \<Rightarrow> ParameterSchema \<Rightarrow> pyval list \<Rightarrow> pyerror + unit"
  and validate_properties ::
    "re_library \<Rightarrow> (string \<times> pyval) list \<Rightarrow> (string \<times> pyval) list \<Rightarrow> pyerror + unit"
where
  "validate lib self val =
     (if val = VNone then
        (if truthy (ps_required self)
         then Inl (ValidationError (text_of ''Required parameter is missing''))
         else Inr ())
      else if ps_type self = VKind STRING then validate_string lib self val
      else if ps_type self = VKind NUMBER then validate_number self val
      else if ps_type self = VKind BOOLEAN then validate_boolean self val
      else if ps_type self = VKind ARRAY then
        (case val of
           VList xs \<Rightarrow>
             (if truthy (ps_items self) then
                (case ps_items self of
                   VDict kw \<Rightarrow>
                     (case ParameterSchema_init kw of
                        Inl e \<Rightarrow> Inl e
                      | Inr item_validator \<Rightarrow> validate_items lib item_validator xs)
                 | _ \<Rightarrow> Inl TypeError)
              else Inr ())
         | _ \<Rightarrow> Inl (ValidationError (text_of ''Expected array, got '' @ text_of (type_str val))))
      else if ps_type self = VKind OBJECT then
        (case val of
           VDict d \<Rightarrow>
             (if truthy (ps_properties self) then
                (case ps_properties self of
                   VDict props \<Rightarrow> validate_properties lib props d
                 | _ \<Rightarrow> Inl AttributeError)
              else Inr ())
         | _ \<Rightarrow> Inl (ValidationError (text_of ''Expected object, got '' @ text_of (type_str val))))
      else if ps_type self = VKind ENUM then validate_enum self val
      else Inr ())"
| "validate_items lib item_validator [] = Inr ()"
| "validate_items lib item_validator (item # rest) =
     (case validate lib item_validator item of
        Inl e \<Rightarrow> Inl e
      | Inr u \<Rightarrow> validate_items lib item_validator rest)"
| "validate_properties lib [] d = Inr ()"
| "validate_properties lib (entry # rest) d =
     (case map_of d (fst entry) of
        None \<Rightarrow> validate_properties lib rest d
      | Some v \<Rightarrow>
          (case snd entry of
             VDict kw \<Rightarrow>
               (case ParameterSchema_init kw of
                  Inl e \<Rightarrow> Inl e
                | Inr prop_validator \<Rightarrow>
                    (case validate lib prop_validator v of
                       Inl e \<Rightarrow> Inl e
                     | Inr u \<Rightarrow> validate_properties lib rest d))
           | _ \<Rightarrow> Inl TypeError))"
  by pat_completeness auto
termination
  by (relation "measures
    [\<lambda>x. case x of
        Inl (lib, self, v) \<Rightarrow> size v
      | Inr (Inl (lib, iv, xs)) \<Rightarrow> size_list size xs
      | Inr (Inr (lib, props, d)) \<Rightarrow> size (VDict d),
     \<lambda>x. case x of
        Inl (lib, self, v) \<Rightarrow>
          Suc (case ps_properties self of VDict props \<Rightarrow> length props | _ \<Rightarrow> 0)
      | Inr (Inl (lib, iv, xs)) \<Rightarrow> 0
      | Inr (Inr (lib, props, d)) \<Rightarrow> length props]")
    (auto dest: map_of_size)

declare validate.simps [simp del]

section \<open>\<^verbatim>\<open>validation.py\<close>: FunctionSchema\<close>

record FunctionSchema =
  fs_name :: pyval
  fs_description :: pyval
  fs_parameters :: "(string \<times> ParameterSchema) list"
  fs_required :: pyval

text \<open>
  The dictionary comprehension of \<^verbatim>\<open>FunctionSchema.__init__\<close>: one
  \<^verbatim>\<open>ParameterSchema(**param_schema)\<close> per entry of \<^verbatim>\<open>parameters\<close>, in order; the first
  constructor that raises ends it.
\<close>

fun build_parameters ::
  "(string \<times> pyval) list \<Rightarrow> (string \<times> ParameterSchema) list
     \<Rightarrow> pyerror + (string \<times> ParameterSchema) list" where
  "build_parameters [] acc = Inr acc"
| "build_parameters (entry # rest) acc =
     (case snd entry of
        VDict kw \<Rightarrow>
          (case ParameterSchema_init kw of
             Inl e \<Rightarrow> Inl e
           | Inr p \<Rightarrow> build_parameters rest (AList.update (fst entry) p acc))
      | _ \<Rightarrow> Inl TypeError)"

definition FunctionSchema_init ::
  "pyval \<Rightarrow> pyval \<Rightarrow> (string \<times> pyval) list \<Rightarrow> pyval \<Rightarrow> pyerror + FunctionSchema" where
  "FunctionSchema_init name description parameters required =
     (case build_parameters parameters [] of
        Inl e \<Rightarrow> Inl e
      | Inr ps \<Rightarrow>
          Inr \<lparr>fs_name = name, fs_description = description, fs_parameters = ps,
               fs_required = (if truthy required then required else VList [])\<rparr>)"

text \<open>The first loop of \<^verbatim>\<open>validate_parameters\<close>, over \<^verbatim>\<open>self.required\<close>.\<close>

fun check_required :: "pyval list \<Rightarrow> (string \<times> pyval) list \<Rightarrow> pyerror + unit" where
  "check_required [] params = Inr ()"
| "check_required (param_name # rest) params =
     (case dict_has params param_name of
        Inl e \<Rightarrow> Inl e
      | Inr present \<Rightarrow>
          if \<not> present then Inl (ValidationError
            (text_of ''Required parameter '' @ text_of quote @ py_str param_name @ text_of quote
               @ text_of '' is missing''))
          else check_required rest params)"

text \<open>
  The second loop, over \<^verbatim>\<open>params.items()\<close>: the membership test and the validation of
  the value are done for one entry before the loop moves to the next entry.
\<close>

fun validate_provided ::
  "re_library \<Rightarrow> FunctionSchema \<Rightarrow> (string \<times> pyval) list \<Rightarrow> pyerror + unit" where
  "validate_provided lib self [] = Inr ()"
| "validate_provided lib self (entry # rest) =
     (case map_of (fs_parameters self) (fst entry) of
        None \<Rightarrow> Inl (ValidationError (text_of ''Unknown parameter: '' @ text_of (fst entry)))
      | Some p \<Rightarrow>
          (case validate lib p (snd entry) of
             Inl (ValidationError m) \<Rightarrow> Inl (ValidationError
               (text_of ''Invalid value for parameter '' @ text_of quote @ text_of (fst entry)
                  @ text_of quote @ text_of '': '' @ m))
           | Inl e \<Rightarrow> Inl e
           | Inr u \<Rightarrow> validate_provided lib self rest))"

definition validate_parameters ::
  "re_library \<Rightarrow> FunctionSchema \<Rightarrow> (string \<times> pyval) list \<Rightarrow> pyerror + unit" where
  "validate_parameters lib self params =
     (case py_iter (fs_required self) of
        Inl e \<Rightarrow> Inl e
      | Inr names \<Rightarrow>
          (case check_required names params of
             Inl e \<Rightarrow> Inl e
           | Inr u \<Rightarrow> validate_provided lib self params))"

section \<open>\<^verbatim>\<open>validation.py\<close>: FunctionValidator\<close>

fun check_fields :: "string list \<Rightarrow> (string \<times> pyval) list \<Rightarrow> pyerror + unit" where
  "check_fields [] schema = Inr ()"
| "check_fields (field # rest) schema =
     (if map_of schema field = None then Inl (ValidationError
        (text_of ''Missing required field in function definition: '' @ text_of field))
      else check_fields rest schema)"

fun check_parameter_definitions :: "(string \<times> pyval) list \<Rightarrow> pyerror + unit" where
  "check_parameter_definitions [] = Inr ()"
| "check_parameter_definitions (entry # rest) =
     (case py_in (VStr ''type'') (snd entry) of
        Inl e \<Rightarrow> Inl e
      | Inr has_type \<Rightarrow>
          if \<not> has_type then Inl (ValidationError
            (text_of ''Parameter '' @ text_of quote @ text_of (fst entry) @ text_of quote
               @ text_of '' missing type''))
          else
            (case py_in (VStr ''description'') (snd entry) of
               Inl e \<Rightarrow> Inl e
             | Inr has_description \<Rightarrow>
                 if \<not> has_description then Inl (ValidationError
                   (text_of ''Parameter '' @ text_of quote @ text_of (fst entry) @ text_of quote
                      @ text_of '' missing description''))
                 else
                   (case py_getitem (snd entry) ''type'' of
                      Inl e \<Rightarrow> Inl e
                    | Inr t \<Rightarrow>
                        (case ParameterType_of t of
                           Inl (ValueError m) \<Rightarrow> Inl (ValidationError
                             (text_of ''Invalid parameter type for '' @ text_of quote
                                @ text_of (fst entry) @ text_of quote @ text_of '': '' @ py_str t))
                         | Inl e \<Rightarrow> Inl e
                         | Inr k \<Rightarrow> check_parameter_definitions rest))))"

definition validate_function_definition :: "(string \<times> pyval) list \<Rightarrow> pyerror + unit" where
  "validate_function_definition schema =
     (case check_fields [''name'', ''description'', ''parameters''] schema of
        Inl e \<Rightarrow> Inl e
      | Inr u \<Rightarrow>
          (case map_of schema ''parameters'' of
             None \<Rightarrow> Inl KeyError
           | Some ps \<Rightarrow>
               (case ps of
                  VDict params \<Rightarrow> check_parameter_definitions params
                | _ \<Rightarrow> Inl (ValidationError (text_of ''Parameters must be an object'')))))"

text \<open>
  \<^verbatim>\<open>create_schema_from_parameters\<close>: the kind of an example value, tested in the order
  string, boolean, number, list, dictionary, and the definition built for every entry of
  the example map.
\<close>

definition example_kind :: "string \<Rightarrow> pyval \<Rightarrow> pyerror + ParameterType" where
  "example_kind param_name param_value =
     (case param_value of
        VStr s \<Rightarrow> Inr STRING
      | VBool b \<Rightarrow> Inr BOOLEAN
      | VInt i \<Rightarrow> Inr NUMBER
      | VFloat r \<Rightarrow> Inr NUMBER
      | VList xs \<Rightarrow> Inr ARRAY
      | VDict d \<Rightarrow> Inr OBJECT
      | _ \<Rightarrow> Inl (ValidationError
          (text_of ''Unsupported parameter type for '' @ text_of quote @ text_of param_name
             @ text_of quote @ text_of '': '' @ text_of (type_str param_value))))"

fun create_schema_entries ::
  "(string \<times> pyval) list \<Rightarrow> (string \<times> pyval) list \<Rightarrow> pyerror + (string \<times> pyval) list" where
  "create_schema_entries [] schema = Inr schema"
| "create_schema_entries (entry # rest) schema =
     (case example_kind (fst entry) (snd entry) of
        Inl e \<Rightarrow> Inl e
      | Inr param_type \<Rightarrow>
          create_schema_entries rest
            (AList.update (fst entry)
               (VDict [(''type'', VStr (kind_value param_type)),
                       (''description'', VStr (''Parameter: '' @ fst entry))])
               schema))"

definition create_schema_from_parameters ::
  "(string \<times> pyval) list \<Rightarrow> pyerror + (string \<times> pyval) list" where
  "create_schema_from_parameters params = create_schema_entries params []"

section \<open>\<^verbatim>\<open>function_calling.py\<close>: FunctionRegistry\<close>

text \<open>
  The registry is two dictionaries keyed by the function name. An operation returns its
  outcome together with the registry as the call leaves it. \<^verbatim>\<open>d[k] = v\<close> is
  \<open>AList.update\<close> (an existing key keeps its place, a new key goes to the end),
  \<^verbatim>\<open>del d[k]\<close> is \<open>AList.delete\<close>. The fields \<open>functions_map\<close> and \<open>schemas_map\<close> are
  \<^verbatim>\<open>_functions\<close> and \<^verbatim>\<open>_schemas\<close>; the stored callable is of any type \<open>'f\<close>.
\<close>

record 'f FunctionRegistry =
  functions_map :: "(string \<times> 'f) list"
  schemas_map :: "(string \<times> FunctionSchema) list"

definition FunctionRegistry_init :: "'f FunctionRegistry" where
  "FunctionRegistry_init = \<lparr>functions_map = [], schemas_map = []\<rparr>"

text \<open>
  The body of the \<^verbatim>\<open>try\<close> block shared by \<^verbatim>\<open>register\<close> and \<^verbatim>\<open>update_function\<close>:
  validate the definition, build the \<^verbatim>\<open>FunctionSchema\<close>, store schema and callable.
\<close>

definition make_schema :: "(string \<times> pyval) list \<Rightarrow> pyerror + FunctionSchema" where
  "make_schema schema =
     (case validate_function_definition schema of
        Inl e \<Rightarrow> Inl e
      | Inr u \<Rightarrow>
          (case map_of schema ''name'' of
             None \<Rightarrow> Inl KeyError
           | Some n \<Rightarrow>
               (case map_of schema ''description'' of
                  None \<Rightarrow> Inl KeyError
                | Some d \<Rightarrow>
                    (case map_of schema ''parameters'' of
                       Some (VDict params) \<Rightarrow>
                         FunctionSchema_init n d params (kwarg schema ''required'' (VList []))
                     | _ \<Rightarrow> Inl KeyError))))"

definition install ::
  "string \<Rightarrow> 'f \<Rightarrow> (string \<times> pyval) list \<Rightarrow> 'f FunctionRegistry
     \<Rightarrow> (pyerror + unit) \<times> 'f FunctionRegistry" where
  "install name func schema reg =
     (case make_schema schema of
        Inl e \<Rightarrow> (Inl e, reg)
      | Inr function_schema \<Rightarrow>
          (Inr (), \<lparr>functions_map = AList.update name func (functions_map reg),
                    schemas_map = AList.update name function_schema (schemas_map reg)\<rparr>))"

definition register ::
  "string \<Rightarrow> 'f \<Rightarrow> (string \<times> pyval) list \<Rightarrow> 'f FunctionRegistry
     \<Rightarrow> (pyerror + unit) \<times> 'f FunctionRegistry" where
  "register name func schema reg =
     (if map_of (functions_map reg) name \<noteq> None then
        (Inl (ValidationError (text_of ''Function '' @ text_of quote @ text_of name @ text_of quote
           @ text_of '' is already registered'')), reg)
      else install name func schema reg)"

definition unregister ::
  "string \<Rightarrow> 'f FunctionRegistry \<Rightarrow> (pyerror + unit) \<times> 'f FunctionRegistry" where
  "unregister name reg =
     (if map_of (functions_map reg) name = None then
        (Inl (ValueError (text_of ''Function '' @ text_of name @ text_of '' not found in registry'')),
         reg)
      else if map_of (schemas_map reg) name = None then
        (Inl KeyError, reg\<lparr>functions_map := AList.delete name (functions_map reg)\<rparr>)
      else
        (Inr (), \<lparr>functions_map = AList.delete name (functions_map reg),
                  schemas_map = AList.delete name (schemas_map reg)\<rparr>))"

definition update_function ::
  "string \<Rightarrow> 'f \<Rightarrow> (string \<times> pyval) list \<Rightarrow> 'f FunctionRegistry
     \<Rightarrow> (pyerror + unit) \<times> 'f FunctionRegistry" where
  "update_function name new_func new_schema reg =
     (if map_of (functions_map reg) name = None then
        (Inl (ValueError (text_of ''Function '' @ text_of name @ text_of '' not found in registry'')),
         reg)
      else install name new_func new_schema reg)"

definition get_function :: "'f FunctionRegistry \<Rightarrow> string \<Rightarrow> 'f option" where
  "get_function reg name = map_of (functions_map reg) name"

definition get_schema :: "'f FunctionRegistry \<Rightarrow> string \<Rightarrow> FunctionSchema option" where
  "get_schema reg name = map_of (schemas_map reg) name"

text \<open>A \<^verbatim>\<open>{"name": ..., "description": ...}\<close> dictionary is the pair of its two values.\<close>

definition list_functions :: "'f FunctionRegistry \<Rightarrow> (string \<times> pyval) list" where
  "list_functions reg = map (\<lambda>entry. (fst entry, fs_description (snd entry))) (schemas_map reg)"

section \<open>\<^verbatim>\<open>function_calling.py\<close>: GemmaFunctionCaller\<close>

text \<open>
  The caller holds the registry and the cached listing \<^verbatim>\<open>_system_prompt\<close>. The registry
  object is shared with whoever created it, so a state whose \<open>registry\<close> field was changed
  by a registry method without the caller is a state the program can be in.
\<close>

record 'f GemmaFunctionCaller =
  registry :: "'f FunctionRegistry"
  system_prompt :: pytext

definition build_system_prompt :: "'f FunctionRegistry \<Rightarrow> pytext" where
  "build_system_prompt reg =
     (if list_functions reg = [] then text_of ''No functions are currently available.''
      else foldl
        (\<lambda>prompt func. prompt @ text_of ''- '' @ text_of (fst func) @ text_of '': ''
           @ py_str (snd func) @ text_of [newline])
        (text_of (''Available functions:'' @ [newline, newline]))
        (list_functions reg))"

definition GemmaFunctionCaller_init :: "'f FunctionRegistry \<Rightarrow> 'f GemmaFunctionCaller" where
  "GemmaFunctionCaller_init reg = \<lparr>registry = reg, system_prompt = build_system_prompt reg\<rparr>"

definition update_system_prompt :: "'f GemmaFunctionCaller \<Rightarrow> 'f GemmaFunctionCaller" where
  "update_system_prompt self = self\<lparr>system_prompt := build_system_prompt (registry self)\<rparr>"

definition get_system_prompt :: "'f GemmaFunctionCaller \<Rightarrow> pytext" where
  "get_system_prompt self = system_prompt self"

definition register_function ::
  "string \<Rightarrow> 'f \<Rightarrow> (string \<times> pyval) list \<Rightarrow> 'f GemmaFunctionCaller
     \<Rightarrow> (pyerror + unit) \<times> 'f GemmaFunctionCaller" where
  "register_function name func schema self =
     (case register name func schema (registry self) of
        (Inl e, reg) \<Rightarrow> (Inl e, self\<lparr>registry := reg\<rparr>)
      | (Inr u, reg) \<Rightarrow> (Inr (), update_system_prompt (self\<lparr>registry := reg\<rparr>)))"

definition unregister_function ::
  "string \<Rightarrow> 'f GemmaFunctionCaller \<Rightarrow> (pyerror + unit) \<times> 'f GemmaFunctionCaller" where
  "unregister_function name self =
     (case unregister name (registry self) of
        (Inl e, reg) \<Rightarrow> (Inl e, self\<lparr>registry := reg\<rparr>)
      | (Inr u, reg) \<Rightarrow> (Inr (), update_system_prompt (self\<lparr>registry := reg\<rparr>)))"

definition caller_update_function ::
  "string \<Rightarrow> 'f \<Rightarrow> (string \<times> pyval) list \<Rightarrow> 'f GemmaFunctionCaller
     \<Rightarrow> (pyerror + unit) \<times> 'f GemmaFunctionCaller" where
  "caller_update_function name new_func new_schema self =
     (case update_function name new_func new_schema (registry self) of
        (Inl e, reg) \<Rightarrow> (Inl e, self\<lparr>registry := reg\<rparr>)
      | (Inr u, reg) \<Rightarrow> (Inr (), update_system_prompt (self\<lparr>registry := reg\<rparr>)))"

text \<open>
  A call \<^verbatim>\<open>function(**parameters)\<close> receives the keyword arguments and may change the
  world \<open>'w\<close> outside the caller; it returns a value or raises an exception. A registered
  object has a truth value (true for a function, a lambda or a \<^verbatim>\<open>Mock\<close>; a class can
  make its instances falsy with \<^verbatim>\<open>__bool__\<close> or \<^verbatim>\<open>__len__\<close>) and a behaviour when called
  (for an object that is not callable, raising \<^verbatim>\<open>TypeError\<close>). An instance of
  \<^verbatim>\<open>FunctionSchema\<close> is always truthy, the class defining neither method, so
  \<^verbatim>\<open>if not schema\<close> tests for \<^verbatim>\<open>None\<close>.
\<close>

type_synonym 'w callable = "(string \<times> pyval) list \<Rightarrow> 'w \<Rightarrow> (pyexc + pyval) \<times> 'w"

datatype 'w pyobject = Obj (obj_truthy: bool) (obj_call: "'w callable")

text \<open>
  The \<^verbatim>\<open>while retries < max_retries\<close> loop of \<^verbatim>\<open>call_function\<close> and what follows it.
  \<^verbatim>\<open>except Exception\<close> catches the exceptions derived from \<^verbatim>\<open>Exception\<close>; any other
  leaves the loop and the method at once.
\<close>

function retry_loop ::
  "'w callable \<Rightarrow> (string \<times> pyval) list \<Rightarrow> int \<Rightarrow> int \<Rightarrow> pyexc option \<Rightarrow> 'w
     \<Rightarrow> (pyerror + pyval) \<times> 'w" where
  "retry_loop func parameters max_retries retries last_error w =
     (if retries < max_retries then
        (case func parameters w of
           (Inr result, w') \<Rightarrow> (Inr result, w')
         | (Inl e, w') \<Rightarrow>
             if derives_Exception e
             then retry_loop func parameters max_retries (retries + 1) (Some e) w'
             else (Inl (Raised e), w'))
      else
        (Inl (RuntimeError (text_of ''Function execution failed: ''
           @ (case last_error of None \<Rightarrow> text_of ''None'' | Some e \<Rightarrow> str_exc e))), w))"
  by pat_completeness auto
termination
  by (relation "measure (\<lambda>(func, parameters, max_retries, retries, last_error, w).
        nat (max_retries - retries))") auto

declare retry_loop.simps [simp del]

definition call_function ::
  "re_library \<Rightarrow> string \<Rightarrow> (string \<times> pyval) list \<Rightarrow> int \<Rightarrow> ('w pyobject) GemmaFunctionCaller
     \<Rightarrow> 'w \<Rightarrow> (pyerror + pyval) \<times> 'w" where
  "call_function lib name parameters max_retries self w =
     (case get_function (registry self) name of
        None \<Rightarrow> (Inl (ValueError (text_of ''Function '' @ text_of name @ text_of '' not found'')), w)
      | Some func \<Rightarrow>
          if \<not> obj_truthy func
          then (Inl (ValueError (text_of ''Function '' @ text_of name @ text_of '' not found'')), w)
          else
            (case get_schema (registry self) name of
               None \<Rightarrow> (Inl (ValueError (text_of ''Schema for function '' @ text_of name
                          @ text_of '' not found'')), w)
             | Some schema \<Rightarrow>
                 (case validate_parameters lib schema parameters of
                    Inl e \<Rightarrow> (Inl e, w)
                  | Inr u \<Rightarrow> retry_loop (obj_call func) parameters max_retries 0 None w)))"

section \<open>Schemas and predicates used in the statements\<close>

text \<open>
  The schema \<^verbatim>\<open>ParameterSchema(type="number", description=..., minimum=0)\<close> and the
  schema \<^verbatim>\<open>ParameterSchema(type="string", description=..., pattern=p)\<close>, as the
  constructor leaves them.
\<close>

definition number_min0 :: ParameterSchema where
  "number_min0 =
     \<lparr>ps_type = VKind NUMBER, ps_description = VStr ''A number parameter'',
      ps_required = VBool False, ps_minimum = VInt 0, ps_maximum = VNone, ps_pattern = VNone,
      ps_enum_values = VNone, ps_items = VNone, ps_properties = VNone\<rparr>"

definition string_with_pattern :: "string \<Rightarrow> ParameterSchema" where
  "string_with_pattern p =
     \<lparr>ps_type = VKind STRING, ps_description = VStr ''A string parameter'',
      ps_required = VBool False, ps_minimum = VNone, ps_maximum = VNone, ps_pattern = VStr p,
      ps_enum_values = VNone, ps_items = VNone, ps_properties = VNone\<rparr>"

text \<open>
  In the closed examples below every pattern is one that \<open>parse_re\<close> reads, or there is
  no pattern at all, so the library parameter is never consulted; \<open>no_library\<close> fills its
  place there.
\<close>

definition no_library :: re_library where
  "no_library pattern s = Raises_re_error"

text \<open>A character that stands for itself in a pattern.\<close>

definition plain :: "char \<Rightarrow> bool" where
  "plain c = (\<not> unsupported c \<and> c \<noteq> CHR ''^'' \<and> c \<noteq> CHR ''$'' \<and> c \<noteq> CHR ''.'' \<and> c \<noteq> CHR ''['')"

text \<open>
  What it means for a pattern to match a text, said without reference to the way the
  matcher proceeds. \<open>splits u\<close> lists the ways to cut \<open>u\<close> in two. \<open>item_matches it b u v\<close>:
  the item \<open>it\<close> matches exactly the text \<open>u\<close>, which is followed by \<open>v\<close> in the value and
  starts at position 0 of the value iff \<open>b\<close>. \<open>full r b u v\<close>: \<open>u\<close> can be cut into
  consecutive pieces, one for each item of \<open>r\<close> in order, each matched by its item.
\<close>

fun splits :: "'a list \<Rightarrow> ('a list \<times> 'a list) list" where
  "splits [] = [([], [])]"
| "splits (x # xs) = ([], x # xs) # map (\<lambda>(a, b). (x # a, b)) (splits xs)"

fun item_matches :: "re_item \<Rightarrow> bool \<Rightarrow> string \<Rightarrow> string \<Rightarrow> bool" where
  "item_matches AtBeginning b u v = (u = [] \<and> b)"
| "item_matches AtEnd b u v = (u = [] \<and> (v = [] \<or> v = [newline]))"
| "item_matches (Rep a Once) b u v = (length u = 1 \<and> list_all (atom_ok a) u)"
| "item_matches (Rep a Opt) b u v = (length u \<le> 1 \<and> list_all (atom_ok a) u)"
| "item_matches (Rep a Star) b u v = list_all (atom_ok a) u"
| "item_matches (Rep a Plus) b u v = (u \<noteq> [] \<and> list_all (atom_ok a) u)"

fun full :: "re_item list \<Rightarrow> bool \<Rightarrow> string \<Rightarrow> string \<Rightarrow> bool" where
  "full [] b u v = (u = [])"
| "full (it # r) b u v =
     list_ex (\<lambda>(u1, u2). item_matches it b u1 (u2 @ v) \<and> full r (b \<and> u1 = []) u2 v) (splits u)"

declare full.simps(2) [simp del]

text \<open>
  To observe how often a callable is invoked, \<open>counted func\<close> behaves as \<open>func\<close> and
  counts its invocations in the world, as \<^verbatim>\<open>Mock.call_count\<close> does in the tests.
  \<open>attempt func ps w k\<close> is the outcome of invocation number \<open>k + 1\<close> when \<open>func\<close> is
  invoked again and again from the world \<open>w\<close>; \<open>caught out\<close> says that the outcome is an
  exception that \<^verbatim>\<open>except Exception\<close> catches, and \<open>terminal_error\<close> is the
  \<^verbatim>\<open>RuntimeError\<close> raised after the loop.
\<close>

definition counted :: "'w callable \<Rightarrow> ('w \<times> nat) callable" where
  "counted func parameters wn =
     (case func parameters (fst wn) of (r, w') \<Rightarrow> (r, (w', Suc (snd wn))))"

fun world_after :: "'w callable \<Rightarrow> (string \<times> pyval) list \<Rightarrow> nat \<Rightarrow> 'w \<Rightarrow> 'w" where
  "world_after func ps 0 w = w"
| "world_after func ps (Suc k) w = world_after func ps k (snd (func ps w))"

definition attempt :: "'w callable \<Rightarrow> (string \<times> pyval) list \<Rightarrow> 'w \<Rightarrow> nat \<Rightarrow> pyexc + pyval" where
  "attempt func ps w k = fst (func ps (world_after func ps k w))"

definition caught :: "pyexc + pyval \<Rightarrow> bool" where
  "caught out = (case out of Inl e \<Rightarrow> derives_Exception e | Inr v \<Rightarrow> False)"

definition terminal_error :: "pyexc option \<Rightarrow> pyerror" where
  "terminal_error last_error =
     RuntimeError (text_of ''Function execution failed: ''
       @ (case last_error of None \<Rightarrow> text_of ''None'' | Some e \<Rightarrow> str_exc e))"

text \<open>
  The callables of \<^verbatim>\<open>test_function_retry_logic\<close>: a mock that takes its outcomes from a
  list, a mock that always raises \<^verbatim>\<open>ValueError()\<close>, its schema, and the caller
  obtained from an empty registry by one \<^verbatim>\<open>register_function\<close>; and a callable that
  raises \<^verbatim>\<open>KeyboardInterrupt()\<close>, which does not derive from \<^verbatim>\<open>Exception\<close>.
\<close>

definition retry_schema :: "(string \<times> pyval) list" where
  "retry_schema =
     [(''name'', VStr ''retry_func''), (''description'', VStr ''A function to test retry logic''),
      (''parameters'', VDict [])]"

definition mock :: "((pyexc + pyval) list) callable" where
  "mock parameters w =
     (case w of [] \<Rightarrow> (Inl (Exc True ''StopIteration'' []), []) | x # xs \<Rightarrow> (x, xs))"

definition always_failing :: "unit callable" where
  "always_failing parameters w = (Inl (Exc True ''ValueError'' []), w)"

definition interrupted :: "unit callable" where
  "interrupted parameters w = (Inl (Exc False ''KeyboardInterrupt'' []), w)"

definition caller_with ::
  "string \<Rightarrow> 'f \<Rightarrow> (string \<times> pyval) list \<Rightarrow> 'f GemmaFunctionCaller" where
  "caller_with name func schema =
     snd (register_function name func schema (GemmaFunctionCaller_init FunctionRegistry_init))"

text \<open>
  The definition registered by \<^verbatim>\<open>create_test_function\<close> in the tests, the
  \<^verbatim>\<open>FunctionSchema\<close> built from it, and a callable that returns a fixed value.
\<close>

definition test_schema :: "(string \<times> pyval) list" where
  "test_schema =
     [(''name'', VStr ''test_func''), (''description'', VStr ''A test function''),
      (''parameters'', VDict
         [(''name'', VDict [(''type'', VStr ''string''),
             (''description'', VStr ''The name parameter'')]),
          (''age'', VDict [(''type'', VStr ''number''),
             (''description'', VStr ''The age parameter''), (''minimum'', VInt 0)])]),
      (''required'', VList [VStr ''name''])]"

definition test_function_schema :: FunctionSchema where
  "test_function_schema =
     \<lparr>fs_name = VStr ''test_func'', fs_description = VStr ''A test function'',
      fs_parameters =
        [(''name'', \<lparr>ps_type = VKind STRING, ps_description = VStr ''The name parameter'',
            ps_required = VBool False, ps_minimum = VNone, ps_maximum = VNone, ps_pattern = VNone,
            ps_enum_values = VNone, ps_items = VNone, ps_properties = VNone\<rparr>),
         (''age'', \<lparr>ps_type = VKind NUMBER, ps_description = VStr ''The age parameter'',
            ps_required = VBool False, ps_minimum = VInt 0, ps_maximum = VNone, ps_pattern = VNone,
            ps_enum_values = VNone, ps_items = VNone, ps_properties = VNone\<rparr>)],
      fs_required = VList [VStr ''name'']\<rparr>"

definition returning :: "pyval \<Rightarrow> unit callable" where
  "returning v parameters w = (Inr v, w)"


text \<open>
  For the order of the checks of \<^verbatim>\<open>validate_parameters\<close>: an argument name is present, an
  entry of the argument map is known to the schema and its value valid, and the three
  errors the method raises itself.
\<close>

definition entry_ok :: "re_library \<Rightarrow> FunctionSchema \<Rightarrow> string \<times> pyval \<Rightarrow> bool" where
  "entry_ok lib fs entry =
     (case map_of (fs_parameters fs) (fst entry) of
        None \<Rightarrow> False
      | Some p \<Rightarrow> validate lib p (snd entry) = Inr ())"

definition present :: "(string \<times> pyval) list \<Rightarrow> string \<Rightarrow> bool" where
  "present params k = (map_of params k \<noteq> None)"

definition missing_error :: "string \<Rightarrow> pyerror" where
  "missing_error n = ValidationError
     (text_of ''Required parameter '' @ text_of quote @ text_of n @ text_of quote
        @ text_of '' is missing'')"

definition unknown_error :: "string \<Rightarrow> pyerror" where
  "unknown_error k = ValidationError (text_of ''Unknown parameter: '' @ text_of k)"

definition invalid_error :: "string \<Rightarrow> pytext \<Rightarrow> pyerror" where
  "invalid_error k m = ValidationError
     (text_of ''Invalid value for parameter '' @ text_of quote @ text_of k @ text_of quote
        @ text_of '': '' @ m)"

text \<open>
  The six methods of \<^verbatim>\<open>FunctionRegistry\<close> as operations, the registry a call leaves
  behind (the three lookups do not assign to either dictionary), and the registry after a
  sequence of calls. \<open>paired\<close> says that the two dictionaries have the same keys, each
  once. Then the two errors of the registry itself, a definition without description, and
  a registry holding one function.
\<close>

datatype 'f registry_op =
    Register string 'f "(string \<times> pyval) list"
  | Unregister string
  | Update_function string 'f "(string \<times> pyval) list"
  | Get_function string
  | Get_schema string
  | List_functions

fun after_op :: "'f registry_op \<Rightarrow> 'f FunctionRegistry \<Rightarrow> 'f FunctionRegistry" where
  "after_op (Register name func schema) reg = snd (register name func schema reg)"
| "after_op (Unregister name) reg = snd (unregister name reg)"
| "after_op (Update_function name func schema) reg = snd (update_function name func schema reg)"
| "after_op (Get_function name) reg = reg"
| "after_op (Get_schema name) reg = reg"
| "after_op List_functions reg = reg"

definition after_ops :: "'f registry_op list \<Rightarrow> 'f FunctionRegistry \<Rightarrow> 'f FunctionRegistry" where
  "after_ops ops reg = foldl (\<lambda>r op. after_op op r) reg ops"

definition paired :: "'f FunctionRegistry \<Rightarrow> bool" where
  "paired reg =
     (set (map fst (functions_map reg)) = set (map fst (schemas_map reg))
      \<and> distinct (map fst (functions_map reg)) \<and> distinct (map fst (schemas_map reg)))"

definition already_registered :: "string \<Rightarrow> pyerror" where
  "already_registered name = ValidationError
     (text_of ''Function '' @ text_of quote @ text_of name @ text_of quote
        @ text_of '' is already registered'')"

definition not_in_registry :: "string \<Rightarrow> pyerror" where
  "not_in_registry name = ValueError
     (text_of ''Function '' @ text_of name @ text_of '' not found in registry'')"

definition no_description_schema :: "(string \<times> pyval) list" where
  "no_description_schema = [(''name'', VStr ''invalid_func''), (''parameters'', VDict [])]"

definition one_function :: "nat FunctionRegistry" where
  "one_function = snd (register ''test_func'' 1 test_schema FunctionRegistry_init)"

text \<open>
  The texts of the capability listing, and \<open>in_sync\<close>: the cached listing is the one
  \<^verbatim>\<open>_build_system_prompt\<close> would build now. \<open>stale_caller\<close> is the caller of an empty
  registry after \<^verbatim>\<open>registry.register("f", ...)\<close> was called on the registry itself;
  \<open>fd_caller\<close> is the caller after \<^verbatim>\<open>register_function("f", ...)\<close>.
\<close>

definition no_functions_text :: pytext where
  "no_functions_text = text_of ''No functions are currently available.''"

definition listing_header :: pytext where
  "listing_header = text_of (''Available functions:'' @ [newline, newline])"

definition listing_line :: "string \<times> pyval \<Rightarrow> pytext" where
  "listing_line func =
     text_of ''- '' @ text_of (fst func) @ text_of '': '' @ py_str (snd func) @ text_of [newline]"

definition in_sync :: "'f GemmaFunctionCaller \<Rightarrow> bool" where
  "in_sync self = (get_system_prompt self = build_system_prompt (registry self))"

definition fd_schema :: "(string \<times> pyval) list" where
  "fd_schema = [(''name'', VStr ''f''), (''description'', VStr ''d''), (''parameters'', VDict [])]"

definition stale_caller :: "nat GemmaFunctionCaller" where
  "stale_caller =
     (GemmaFunctionCaller_init FunctionRegistry_init)
       \<lparr>registry := snd (register ''f'' 1 fd_schema FunctionRegistry_init)\<rparr>"

definition empty_caller :: "nat GemmaFunctionCaller" where
  "empty_caller = GemmaFunctionCaller_init FunctionRegistry_init"

definition fd_caller :: "nat GemmaFunctionCaller" where
  "fd_caller = snd (register_function ''f'' 1 fd_schema empty_caller)"

text \<open>
  The error of a type mismatch, and the schemas of the nested examples: an array of
  strings, an object with two string properties, and the schema \<^verbatim>\<open>ParameterSchema(**items)\<close>
  builds for their elements.
\<close>

definition expected_error :: "string \<Rightarrow> pyval \<Rightarrow> pyerror" where
  "expected_error kind v =
     ValidationError (text_of ''Expected '' @ text_of kind @ text_of '', got '' @ text_of (type_str v))"

definition string_item :: "(string \<times> pyval) list" where
  "string_item = [(''type'', VStr ''string''), (''description'', VStr ''Array item'')]"

definition array_of_strings :: ParameterSchema where
  "array_of_strings =
     \<lparr>ps_type = VKind ARRAY, ps_description = VStr ''An array parameter'',
      ps_required = VBool False, ps_minimum = VNone, ps_maximum = VNone, ps_pattern = VNone,
      ps_enum_values = VNone, ps_items = VDict string_item, ps_properties = VNone\<rparr>"

definition object_a_b :: ParameterSchema where
  "object_a_b =
     \<lparr>ps_type = VKind OBJECT, ps_description = VStr ''An object parameter'',
      ps_required = VBool False, ps_minimum = VNone, ps_maximum = VNone, ps_pattern = VNone,
      ps_enum_values = VNone, ps_items = VNone,
      ps_properties = VDict [(''a'', VDict string_item), (''b'', VDict string_item)]\<rparr>"

definition string_schema :: ParameterSchema where
  "string_schema =
     \<lparr>ps_type = VKind STRING, ps_description = VStr ''Array item'',
      ps_required = VBool False, ps_minimum = VNone, ps_maximum = VNone, ps_pattern = VNone,
      ps_enum_values = VNone, ps_items = VNone, ps_properties = VNone\<rparr>"

section \<open>Properties of the match primitive\<close>

lemma text_of_append: "text_of (a @ b) = text_of a @ text_of b"
  by (simp add: text_of_def)

lemmas re_eval = re_match_def parse_item_def with_quant_def is_quant_def unsupported_def
  quant_of_def backslash_def in_range_def newline_def parse_set.simps

lemma parse_item_plain:
  assumes "plain c" and "cs = [] \<or> plain (hd cs)"
  shows "parse_item c cs = Some (Rep (Lit c) Once, cs)"
proof (cases cs)
  case Nil
  with assms show ?thesis by (simp add: parse_item_def plain_def with_quant_def)
next
  case (Cons d ds)
  with assms have "\<not> is_quant d" by (auto simp: plain_def unsupported_def)
  with assms Cons show ?thesis by (simp add: parse_item_def plain_def with_quant_def)
qed

lemma parse_re_plain: "list_all plain p \<Longrightarrow> parse_re p = Some (map (\<lambda>c. Rep (Lit c) Once) p)"
proof (induction p)
  case Nil
  then show ?case by simp
next
  case (Cons c cs)
  then have "plain c" and "cs = [] \<or> plain (hd cs)"
    by (cases cs; simp)+
  then have "parse_item c cs = Some (Rep (Lit c) Once, cs)"
    by (rule parse_item_plain)
  with Cons show ?case by simp
qed

lemma re_run_literal: "re_run (map (\<lambda>c. Rep (Lit c) Once) p) b s = prefix p s"
  by (induction p arbitrary: b s) (auto split: list.splits)

lemma re_match_plain: "list_all plain p \<Longrightarrow> re_match lib (VStr p) s = Match (prefix p s)"
  by (simp add: re_match_def parse_re_plain re_run_literal)

text \<open>
  The matcher and the declarative reading agree: \<open>re_run r b s\<close> holds exactly when \<open>s\<close>
  begins with a text that the items \<open>r\<close> match.
\<close>

lemma in_splits: "(a, b) \<in> set (splits u) \<longleftrightarrow> a @ b = u"
proof (induction u arbitrary: a b)
  case Nil
  then show ?case by auto
next
  case (Cons x xs)
  show ?case
  proof (cases a)
    case Nil
    then show ?thesis by auto
  next
    case (Cons y ys)
    have "(y # ys, b) \<in> set (splits (x # xs)) \<longleftrightarrow> y = x \<and> (ys, b) \<in> set (splits xs)"
      by auto
    then show ?thesis by (simp add: Cons Cons.IH)
  qed
qed

lemma list_ex_splits: "list_ex (\<lambda>(a, b). P a b) (splits u) = (\<exists>a b. u = a @ b \<and> P a b)"
proof
  assume "list_ex (\<lambda>(a, b). P a b) (splits u)"
  then obtain a b where "(a, b) \<in> set (splits u)" and "P a b"
    by (auto simp: list_ex_iff)
  then show "\<exists>a b. u = a @ b \<and> P a b" by (auto simp: in_splits)
next
  assume "\<exists>a b. u = a @ b \<and> P a b"
  then obtain a b where "u = a @ b" and "P a b" by blast
  then have "(a, b) \<in> set (splits u)" and "P a b" by (simp_all add: in_splits)
  then show "list_ex (\<lambda>(a, b). P a b) (splits u)" by (auto simp: list_ex_iff)
qed

lemma full_Cons:
  "full (it # r) b u v
     = (\<exists>u1 u2. u = u1 @ u2 \<and> item_matches it b u1 (u2 @ v) \<and> full r (b \<and> u1 = []) u2 v)"
  by (simp add: full.simps(2) list_ex_splits)

lemma full_AtBeginning: "full (AtBeginning # r) b u v = (b \<and> full r b u v)"
  by (auto simp: full_Cons)

lemma full_AtEnd: "full (AtEnd # r) b u v = ((u @ v = [] \<or> u @ v = [newline]) \<and> full r b u v)"
  by (auto simp: full_Cons)

lemma full_Once:
  "full (Rep a Once # r) b u v = (\<exists>c u'. u = c # u' \<and> atom_ok a c \<and> full r False u' v)"
proof
  assume "full (Rep a Once # r) b u v"
  then obtain u1 u2 where "u = u1 @ u2" and "length u1 = 1" and "list_all (atom_ok a) u1"
    and "full r (b \<and> u1 = []) u2 v"
    by (auto simp: full_Cons)
  then show "\<exists>c u'. u = c # u' \<and> atom_ok a c \<and> full r False u' v"
    by (cases u1) auto
next
  assume "\<exists>c u'. u = c # u' \<and> atom_ok a c \<and> full r False u' v"
  then obtain c u' where "u = [c] @ u'" and "atom_ok a c" and "full r False u' v" by auto
  then have "u = [c] @ u' \<and> item_matches (Rep a Once) b [c] (u' @ v)
      \<and> full r (b \<and> [c] = []) u' v"
    by simp
  then show "full (Rep a Once # r) b u v"
    unfolding full_Cons by blast
qed

lemma full_Opt:
  "full (Rep a Opt # r) b u v
     = (full r b u v \<or> (\<exists>c u'. u = c # u' \<and> atom_ok a c \<and> full r False u' v))"
proof
  assume "full (Rep a Opt # r) b u v"
  then obtain u1 u2 where u: "u = u1 @ u2" and "length u1 \<le> 1" and "list_all (atom_ok a) u1"
    and "full r (b \<and> u1 = []) u2 v"
    by (auto simp: full_Cons)
  then show "full r b u v \<or> (\<exists>c u'. u = c # u' \<and> atom_ok a c \<and> full r False u' v)"
    by (cases u1) auto
next
  assume "full r b u v \<or> (\<exists>c u'. u = c # u' \<and> atom_ok a c \<and> full r False u' v)"
  then show "full (Rep a Opt # r) b u v"
  proof
    assume "full r b u v"
    then have "u = [] @ u \<and> item_matches (Rep a Opt) b [] (u @ v) \<and> full r (b \<and> [] = []) u v"
      by simp
    then show ?thesis unfolding full_Cons by blast
  next
    assume "\<exists>c u'. u = c # u' \<and> atom_ok a c \<and> full r False u' v"
    then obtain c u' where "u = [c] @ u'" and "atom_ok a c" and "full r False u' v" by auto
    then have "u = [c] @ u' \<and> item_matches (Rep a Opt) b [c] (u' @ v)
        \<and> full r (b \<and> [c] = []) u' v"
      by simp
    then show ?thesis unfolding full_Cons by blast
  qed
qed

lemma full_Star:
  "full (Rep a Star # r) b u v
     = (full r b u v \<or> (\<exists>c u'. u = c # u' \<and> atom_ok a c \<and> full (Rep a Star # r) False u' v))"
proof
  assume "full (Rep a Star # r) b u v"
  then obtain u1 u2 where u: "u = u1 @ u2" and all: "list_all (atom_ok a) u1"
    and rest: "full r (b \<and> u1 = []) u2 v"
    by (auto simp: full_Cons)
  show "full r b u v \<or> (\<exists>c u'. u = c # u' \<and> atom_ok a c \<and> full (Rep a Star # r) False u' v)"
  proof (cases u1)
    case Nil
    with u rest show ?thesis by simp
  next
    case (Cons c cs)
    with all rest have "u1 @ u2 = c # (cs @ u2)" and "atom_ok a c"
      and "cs @ u2 = cs @ u2 \<and> item_matches (Rep a Star) False cs (u2 @ v)
        \<and> full r (False \<and> cs = []) u2 v"
      by simp_all
    then have "u = c # (cs @ u2) \<and> atom_ok a c \<and> full (Rep a Star # r) False (cs @ u2) v"
      unfolding full_Cons [of "Rep a Star"] u by blast
    then show ?thesis by blast
  qed
next
  assume "full r b u v \<or> (\<exists>c u'. u = c # u' \<and> atom_ok a c \<and> full (Rep a Star # r) False u' v)"
  then show "full (Rep a Star # r) b u v"
  proof
    assume "full r b u v"
    then have "u = [] @ u \<and> item_matches (Rep a Star) b [] (u @ v) \<and> full r (b \<and> [] = []) u v"
      by simp
    then show ?thesis unfolding full_Cons by blast
  next
    assume "\<exists>c u'. u = c # u' \<and> atom_ok a c \<and> full (Rep a Star # r) False u' v"
    then obtain c u' u1 u2 where u: "u = c # u'" and c: "atom_ok a c" and u': "u' = u1 @ u2"
      and all: "list_all (atom_ok a) u1" and rest: "full r False u2 v"
      by (auto simp: full_Cons)
    then have "u = (c # u1) @ u2 \<and> item_matches (Rep a Star) b (c # u1) (u2 @ v)
        \<and> full r (b \<and> c # u1 = []) u2 v"
      by simp
    then show ?thesis unfolding full_Cons by blast
  qed
qed

lemma full_Plus:
  "full (Rep a Plus # r) b u v
     = (\<exists>c u'. u = c # u' \<and> atom_ok a c \<and> full (Rep a Star # r) False u' v)"
proof
  assume "full (Rep a Plus # r) b u v"
  then obtain u1 u2 where u: "u = u1 @ u2" and ne: "u1 \<noteq> []" and all: "list_all (atom_ok a) u1"
    and rest: "full r (b \<and> u1 = []) u2 v"
    by (auto simp: full_Cons)
  from ne obtain c cs where u1: "u1 = c # cs" by (cases u1) auto
  with all rest have "atom_ok a c"
    and "cs @ u2 = cs @ u2 \<and> item_matches (Rep a Star) False cs (u2 @ v)
      \<and> full r (False \<and> cs = []) u2 v"
    by simp_all
  then have "u = c # (cs @ u2) \<and> atom_ok a c \<and> full (Rep a Star # r) False (cs @ u2) v"
    unfolding full_Cons [of "Rep a Star"] u u1 by auto
  then show "\<exists>c u'. u = c # u' \<and> atom_ok a c \<and> full (Rep a Star # r) False u' v"
    by blast
next
  assume "\<exists>c u'. u = c # u' \<and> atom_ok a c \<and> full (Rep a Star # r) False u' v"
  then obtain c u' u1 u2 where u: "u = c # u'" and c: "atom_ok a c" and u': "u' = u1 @ u2"
    and all: "list_all (atom_ok a) u1" and rest: "full r False u2 v"
    by (auto simp: full_Cons)
  then have "u = (c # u1) @ u2 \<and> item_matches (Rep a Plus) b (c # u1) (u2 @ v)
      \<and> full r (b \<and> c # u1 = []) u2 v"
    by simp
  then show "full (Rep a Plus # r) b u v" unfolding full_Cons by blast
qed

lemma split_Cons:
  "(\<exists>u v. s = u @ v \<and> (\<exists>d u'. u = d # u' \<and> P d u' v))
     = (case s of [] \<Rightarrow> False | c # cs \<Rightarrow> \<exists>u' v. cs = u' @ v \<and> P c u' v)"
  by (cases s) (auto simp: Cons_eq_append_conv)

lemma ex_full_Once:
  "(\<exists>u v. s = u @ v \<and> full (Rep a Once # r) b u v)
     = (case s of [] \<Rightarrow> False | c # cs \<Rightarrow> atom_ok a c \<and> (\<exists>u v. cs = u @ v \<and> full r False u v))"
  unfolding full_Once split_Cons [where P = "\<lambda>d u' v. atom_ok a d \<and> full r False u' v"]
  by (auto split: list.splits)

lemma ex_full_Opt:
  "(\<exists>u v. s = u @ v \<and> full (Rep a Opt # r) b u v)
     = ((\<exists>u v. s = u @ v \<and> full r b u v)
        \<or> (case s of [] \<Rightarrow> False
            | c # cs \<Rightarrow> atom_ok a c \<and> (\<exists>u v. cs = u @ v \<and> full r False u v)))"
proof -
  have "(\<exists>u v. s = u @ v \<and> full (Rep a Opt # r) b u v)
      = ((\<exists>u v. s = u @ v \<and> full r b u v)
         \<or> (\<exists>u v. s = u @ v \<and> (\<exists>c u'. u = c # u' \<and> atom_ok a c \<and> full r False u' v)))"
    unfolding full_Opt by blast
  then show ?thesis
    unfolding split_Cons [where P = "\<lambda>d u' v. atom_ok a d \<and> full r False u' v"]
    by (auto split: list.splits)
qed

lemma ex_full_Star:
  "(\<exists>u v. s = u @ v \<and> full (Rep a Star # r) b u v)
     = ((\<exists>u v. s = u @ v \<and> full r b u v)
        \<or> (case s of [] \<Rightarrow> False
            | c # cs \<Rightarrow> atom_ok a c \<and> (\<exists>u v. cs = u @ v \<and> full (Rep a Star # r) False u v)))"
proof -
  have "(\<exists>u v. s = u @ v \<and> full (Rep a Star # r) b u v)
      = ((\<exists>u v. s = u @ v \<and> full r b u v)
         \<or> (\<exists>u v. s = u @ v
              \<and> (\<exists>c u'. u = c # u' \<and> atom_ok a c \<and> full (Rep a Star # r) False u' v)))"
    by (subst full_Star) blast
  then show ?thesis
    unfolding split_Cons [where P = "\<lambda>d u' v. atom_ok a d \<and> full (Rep a Star # r) False u' v"]
    by (auto split: list.splits)
qed

lemma ex_full_Plus:
  "(\<exists>u v. s = u @ v \<and> full (Rep a Plus # r) b u v)
     = (case s of [] \<Rightarrow> False
        | c # cs \<Rightarrow> atom_ok a c \<and> (\<exists>u v. cs = u @ v \<and> full (Rep a Star # r) False u v))"
  unfolding full_Plus
    split_Cons [where P = "\<lambda>d u' v. atom_ok a d \<and> full (Rep a Star # r) False u' v"]
  by (auto split: list.splits)

lemma re_run_full: "re_run r b s = (\<exists>u v. s = u @ v \<and> full r b u v)"
proof (induction r b s rule: re_run.induct)
  case (1 b s)
  then show ?case by simp
next
  case (2 r b s)
  then show ?case by (auto simp: full_AtBeginning)
next
  case (3 r b s)
  then show ?case by (auto simp: full_AtEnd)
next
  case (4 a r b s)
  then show ?case unfolding ex_full_Once by (simp split: list.splits)
next
  case (5 a r b s)
  then show ?case unfolding ex_full_Opt by (simp split: list.splits)
next
  case (6 a r b s)
  then show ?case by (subst ex_full_Star) (simp split: list.splits)
next
  case (7 a r b s)
  then show ?case unfolding ex_full_Plus by (simp split: list.splits)
qed

lemma validate_string_kind:
  "ps_type self = VKind STRING \<Longrightarrow> validate lib self (VStr s) = validate_string lib self (VStr s)"
  by (simp add: validate.simps)

section \<open>Number validation and booleans\<close>

text \<open>
  C1. The claim: for the Number kind, validation fails unless the value is an integer or a
  float and is not a boolean; validating \<^verbatim>\<open>True\<close> against \<^verbatim>\<open>{kind: Number, minimum: 0}\<close>
  fails. The code tests \<^verbatim>\<open>isinstance(value, (int, float))\<close>, which holds of a boolean, and
  \<^verbatim>\<open>True < 0\<close> is false: the schema built from that definition accepts \<^verbatim>\<open>True\<close>, while
  \<^verbatim>\<open>create_schema_from_parameters\<close> infers the kind \<^verbatim>\<open>boolean\<close>, not \<^verbatim>\<open>number\<close>, for
  the same value.
\<close>

theorem number_accepts_boolean:
  "ParameterSchema_init
     [(''type'', VStr ''number''), (''description'', VStr ''A number parameter''),
      (''minimum'', VInt 0)] = Inr number_min0
   \<and> validate no_library number_min0 (VBool True) = Inr ()
   \<and> create_schema_from_parameters [(''flag'', VBool True)]
       = Inr [(''flag'', VDict [(''type'', VStr ''boolean''),
                                (''description'', VStr ''Parameter: flag'')])]"
  by (simp add: ParameterSchema_init_def param_keys_def ParameterType_of_def kwarg_def
      number_min0_def validate.simps validate_number_def isinstance_int_float_def py_lt_def
      create_schema_from_parameters_def example_kind_def)

section \<open>String patterns\<close>

text \<open>
  C2, as stated: the unanchored pattern \<^verbatim>\<open>abc\<close> against \<^verbatim>\<open>xabcx\<close> succeeds. It does not:
  \<^verbatim>\<open>re.match\<close> only looks for a match that starts at position 0.
\<close>

theorem unanchored_pattern_counterexample:
  "validate no_library (string_with_pattern ''abc'') (VStr ''xabcx'')
     = Inl (ValidationError (text_of ''String does not match pattern: abc''))"
  by (simp add: validate.simps validate_string_def string_with_pattern_def re_eval text_of_def)

text \<open>
  C2, amended. String-kind validation of a string against a truthy pattern is decided by
  \<^verbatim>\<open>re.match(pattern, value)\<close>: it succeeds when that returns a match, fails with the
  pattern in the message when it returns none, and an exception of \<^verbatim>\<open>re.match\<close>
  propagates. For every pattern made of literal characters, \<^verbatim>\<open>.\<close>, \<^verbatim>\<open>^\<close>, \<^verbatim>\<open>$\<close>, character
  sets and the greedy quantifiers \<^verbatim>\<open>*\<close>, \<^verbatim>\<open>+\<close>, \<^verbatim>\<open>?\<close>, validation succeeds exactly when the
  value begins with a text that the whole pattern matches: the match starts at the
  beginning of the value and need not reach its end. In particular a pattern of plain
  characters accepts exactly the values it is a prefix of (so \<^verbatim>\<open>abc\<close> accepts \<^verbatim>\<open>abcx\<close> and
  rejects \<^verbatim>\<open>xabcx\<close>), and the anchored pattern \<^verbatim>\<open>^[A-Za-z]+$\<close> rejects \<^verbatim>\<open>Hello123\<close> and
  accepts \<^verbatim>\<open>Hello\<close>.
\<close>

theorem pattern_matches_from_start:
  "(\<forall>self s. ps_type self = VKind STRING \<and> truthy (ps_pattern self)
      \<longrightarrow> validate lib self (VStr s)
          = (case re_match lib (ps_pattern self) s of
               Match m \<Rightarrow>
                 if m then Inr ()
                 else Inl (ValidationError
                        (text_of ''String does not match pattern: '' @ py_str (ps_pattern self)))
             | Raises_re_error \<Rightarrow> Inl ReError
             | Raises_TypeError \<Rightarrow> Inl TypeError))
   \<and> (\<forall>self p r s. ps_type self = VKind STRING \<and> ps_pattern self = VStr p \<and> p \<noteq> []
        \<and> parse_re p = Some r
      \<longrightarrow> validate lib self (VStr s)
          = (if \<exists>u v. s = u @ v \<and> full r True u v then Inr ()
             else Inl (ValidationError (text_of ''String does not match pattern: '' @ text_of p))))
   \<and> (\<forall>self p s. ps_type self = VKind STRING \<and> ps_pattern self = VStr p \<and> p \<noteq> []
        \<and> list_all plain p
      \<longrightarrow> validate lib self (VStr s)
          = (if prefix p s then Inr ()
             else Inl (ValidationError (text_of ''String does not match pattern: '' @ text_of p))))
   \<and> parse_re ''^[A-Za-z]+$''
       = Some [AtBeginning,
               Rep (CharSet False [(CHR ''A'', CHR ''Z''), (CHR ''a'', CHR ''z'')]) Plus, AtEnd]
   \<and> validate lib (string_with_pattern ''^[A-Za-z]+$'') (VStr ''Hello123'')
       = Inl (ValidationError (text_of ''String does not match pattern: ^[A-Za-z]+$''))
   \<and> validate lib (string_with_pattern ''^[A-Za-z]+$'') (VStr ''Hello'') = Inr ()
   \<and> validate lib (string_with_pattern ''abc'') (VStr ''abcx'') = Inr ()"
proof (intro conjI allI impI)
  fix self :: ParameterSchema and s
  assume "ps_type self = VKind STRING \<and> truthy (ps_pattern self)"
  then show "validate lib self (VStr s)
          = (case re_match lib (ps_pattern self) s of
               Match m \<Rightarrow>
                 if m then Inr ()
                 else Inl (ValidationError
                        (text_of ''String does not match pattern: '' @ py_str (ps_pattern self)))
             | Raises_re_error \<Rightarrow> Inl ReError
             | Raises_TypeError \<Rightarrow> Inl TypeError)"
    by (simp add: validate_string_kind validate_string_def split: match_outcome.splits)
next
  fix self :: ParameterSchema and p r s
  assume h: "ps_type self = VKind STRING \<and> ps_pattern self = VStr p \<and> p \<noteq> []
      \<and> parse_re p = Some r"
  then have "re_match lib (ps_pattern self) s = Match (\<exists>u v. s = u @ v \<and> full r True u v)"
    by (simp add: re_match_def re_run_full)
  with h show "validate lib self (VStr s)
          = (if \<exists>u v. s = u @ v \<and> full r True u v then Inr ()
             else Inl (ValidationError (text_of ''String does not match pattern: '' @ text_of p)))"
    by (simp add: validate_string_kind validate_string_def)
next
  fix self :: ParameterSchema and p s
  assume "ps_type self = VKind STRING \<and> ps_pattern self = VStr p \<and> p \<noteq> [] \<and> list_all plain p"
  then show "validate lib self (VStr s)
          = (if prefix p s then Inr ()
             else Inl (ValidationError (text_of ''String does not match pattern: '' @ text_of p)))"
    by (simp add: validate_string_kind validate_string_def re_match_plain)
next
  show "parse_re ''^[A-Za-z]+$''
       = Some [AtBeginning,
               Rep (CharSet False [(CHR ''A'', CHR ''Z''), (CHR ''a'', CHR ''z'')]) Plus, AtEnd]"
    by (simp add: re_eval)
next
  show "validate lib (string_with_pattern ''^[A-Za-z]+$'') (VStr ''Hello123'')
       = Inl (ValidationError (text_of ''String does not match pattern: ^[A-Za-z]+$''))"
    by (simp add: validate.simps validate_string_def string_with_pattern_def re_eval text_of_def)
next
  show "validate lib (string_with_pattern ''^[A-Za-z]+$'') (VStr ''Hello'') = Inr ()"
    by (simp add: validate.simps validate_string_def string_with_pattern_def re_eval)
next
  show "validate lib (string_with_pattern ''abc'') (VStr ''abcx'') = Inr ()"
    by (simp add: validate.simps validate_string_def string_with_pattern_def re_eval)
qed

theorem pattern_matches_from_start_witness:
  "validate no_library (string_with_pattern ''[a-c]+x?$'') (VStr ''abca'') = Inr ()
   \<and> validate no_library (string_with_pattern ''[a-c]+x?$'') (VStr ''abcay'')
       = Inl (ValidationError (text_of ''String does not match pattern: [a-c]+x?$''))
   \<and> validate no_library (string_with_pattern ''ab'') (VStr ''abab'') = Inr ()
   \<and> validate no_library (string_with_pattern ''ab'') (VStr ''xab'')
       = Inl (ValidationError (text_of ''String does not match pattern: ab''))"
proof -
  let ?r = "[Rep (CharSet False [(CHR ''a'', CHR ''c'')]) Plus, Rep (Lit CHR ''x'') Opt, AtEnd]"
  have p: "ps_type (string_with_pattern ''[a-c]+x?$'') = VKind STRING
      \<and> ps_pattern (string_with_pattern ''[a-c]+x?$'') = VStr ''[a-c]+x?$'' \<and> ''[a-c]+x?$'' \<noteq> []
      \<and> parse_re ''[a-c]+x?$'' = Some ?r"
    by (simp add: string_with_pattern_def re_eval)
  have yes: "\<exists>u v. ''abca'' = u @ v \<and> full ?r True u v"
    unfolding list_ex_splits [symmetric]
    by (simp add: full.simps(2) in_range_def newline_def)
  have no: "\<not> (\<exists>u v. ''abcay'' = u @ v \<and> full ?r True u v)"
    unfolding list_ex_splits [symmetric]
    by (simp add: full.simps(2) in_range_def newline_def)
  have q: "ps_type (string_with_pattern ''ab'') = VKind STRING
      \<and> ps_pattern (string_with_pattern ''ab'') = VStr ''ab'' \<and> ''ab'' \<noteq> [] \<and> list_all plain ''ab''"
    by (simp add: string_with_pattern_def plain_def unsupported_def is_quant_def backslash_def)
  note fragment = pattern_matches_from_start [where lib = no_library, THEN conjunct2,
      THEN conjunct1, rule_format, OF p]
  note literal = pattern_matches_from_start [where lib = no_library, THEN conjunct2,
      THEN conjunct2, THEN conjunct1, rule_format, OF q]
  from fragment [of "''abca''"] fragment [of "''abcay''"] yes no
    literal [of "''abab''"] literal [of "''xab''"]
  show ?thesis
    by (simp add: text_of_def)
qed

section \<open>The retry loop\<close>

lemma attempt_0: "attempt func ps w 0 = fst (func ps w)"
  by (simp add: attempt_def)

lemma attempt_Suc: "attempt func ps w (Suc k) = attempt func ps (snd (func ps w)) k"
  by (simp add: attempt_def)

lemma retry_loop_count:
  "snd (snd (retry_loop (counted func) ps N r le (w, n))) \<le> n + nat (N - r)"
proof (induction "nat (N - r)" arbitrary: r le w n)
  case 0
  then have "\<not> r < N" by simp
  then show ?case by (subst retry_loop.simps) simp
next
  case (Suc m)
  then have less: "r < N" and m: "m = nat (N - (r + 1))" by simp_all
  obtain out w' where call: "func ps w = (out, w')" by (cases "func ps w")
  show ?case
  proof (cases out)
    case (Inl e)
    show ?thesis
    proof (cases "derives_Exception e")
      case True
      with Inl less call have "retry_loop (counted func) ps N r le (w, n)
          = retry_loop (counted func) ps N (r + 1) (Some e) (w', Suc n)"
        by (subst retry_loop.simps) (simp add: counted_def)
      with Suc.hyps(1) [OF m, of "Some e" w' "Suc n"] less show ?thesis by simp
    next
      case False
      with Inl less call have "retry_loop (counted func) ps N r le (w, n)
          = (Inl (Raised e), (w', Suc n))"
        by (subst retry_loop.simps) (simp add: counted_def)
      with less show ?thesis by simp
    qed
  next
    case (Inr v)
    with less call have "retry_loop (counted func) ps N r le (w, n) = (Inr v, (w', Suc n))"
      by (subst retry_loop.simps) (simp add: counted_def)
    with less show ?thesis by simp
  qed
qed

lemma retry_loop_step:
  assumes "r < N" and "func ps w = (Inl e, w')" and "derives_Exception e"
  shows "retry_loop (counted func) ps N r le (w, n)
     = retry_loop (counted func) ps N (r + 1) (Some e) (w', Suc n)"
  using assms by (subst retry_loop.simps) (simp add: counted_def)

lemma caught_first:
  assumes "\<forall>j<Suc k. caught (attempt func ps w j)" and "func ps w = (out, w')"
  obtains e where "out = Inl e" and "derives_Exception e"
    and "\<forall>j<k. caught (attempt func ps w' j)"
proof -
  from assms(1) have "caught (attempt func ps w 0)" by blast
  with assms(2) obtain e where out: "out = Inl e" and e: "derives_Exception e"
    by (cases out) (simp_all add: attempt_0 caught_def)
  have "\<forall>j<k. caught (attempt func ps w' j)"
  proof (intro allI impI)
    fix j assume "j < k"
    with assms(1) have "caught (attempt func ps w (Suc j))" by simp
    with assms(2) show "caught (attempt func ps w' j)" by (simp add: attempt_Suc)
  qed
  with out e that show ?thesis by blast
qed

lemma retry_loop_leaves:
  "r + int k < N \<Longrightarrow> \<forall>j<k. caught (attempt func ps w j) \<Longrightarrow> \<not> caught (attempt func ps w k) \<Longrightarrow>
   retry_loop (counted func) ps N r le (w, n)
     = (case attempt func ps w k of Inr v \<Rightarrow> Inr v | Inl e \<Rightarrow> Inl (Raised e),
        (world_after func ps (Suc k) w, n + Suc k))"
proof (induction k arbitrary: r le w n)
  case 0
  obtain out w' where call: "func ps w = (out, w')" by (cases "func ps w")
  with 0 show ?case
    by (subst retry_loop.simps) (simp add: counted_def attempt_0 caught_def split: sum.splits)
next
  case (Suc k)
  obtain out w' where call: "func ps w = (out, w')" by (cases "func ps w")
  from Suc.prems(2) call obtain e where out: "out = Inl e" and e: "derives_Exception e"
    and rest: "\<forall>j<k. caught (attempt func ps w' j)"
    by (rule caught_first)
  from Suc.prems(1) have less: "r < N" by simp
  have step: "retry_loop (counted func) ps N r le (w, n)
        = retry_loop (counted func) ps N (r + 1) (Some e) (w', Suc n)"
    using less call e unfolding out by (rule retry_loop_step)
  have "r + 1 + int k < N" using Suc.prems(1) by simp
  moreover note rest
  moreover have "\<not> caught (attempt func ps w' k)"
    using Suc.prems(3) call by (simp add: attempt_Suc)
  ultimately have "retry_loop (counted func) ps N (r + 1) (Some e) (w', Suc n)
      = (case attempt func ps w' k of Inr v \<Rightarrow> Inr v | Inl e \<Rightarrow> Inl (Raised e),
         (world_after func ps (Suc k) w', Suc n + Suc k))"
    by (rule Suc.IH)
  with step call show ?case by (simp add: attempt_Suc)
qed

lemma retry_loop_exhausted:
  "r + int k = N \<or> (k = 0 \<and> N \<le> r) \<Longrightarrow> \<forall>j<k. caught (attempt func ps w j) \<Longrightarrow>
   retry_loop (counted func) ps N r le (w, n)
     = (Inl (terminal_error (if k = 0 then le else Some (projl (attempt func ps w (k - 1))))),
        (world_after func ps k w, n + k))"
proof (induction k arbitrary: r le w n)
  case 0
  then have "\<not> r < N" by auto
  then show ?case by (subst retry_loop.simps) (simp add: terminal_error_def)
next
  case (Suc k)
  obtain out w' where call: "func ps w = (out, w')" by (cases "func ps w")
  from Suc.prems(2) call obtain e where out: "out = Inl e" and e: "derives_Exception e"
    and rest': "\<forall>j<k. caught (attempt func ps w' j)"
    by (rule caught_first)
  from Suc.prems(1) have less: "r < N" and rest: "r + 1 + int k = N \<or> (k = 0 \<and> N \<le> r + 1)"
    by auto
  have step: "retry_loop (counted func) ps N r le (w, n)
        = retry_loop (counted func) ps N (r + 1) (Some e) (w', Suc n)"
    using less call e unfolding out by (rule retry_loop_step)
  from rest rest' have "retry_loop (counted func) ps N (r + 1) (Some e) (w', Suc n)
      = (Inl (terminal_error (if k = 0 then Some e else Some (projl (attempt func ps w' (k - 1))))),
         (world_after func ps k w', Suc n + k))"
    by (rule Suc.IH)
  moreover have "(if k = 0 then Some e else Some (projl (attempt func ps w' (k - 1))))
      = Some (projl (attempt func ps w (Suc k - 1)))"
    using call out by (cases k) (simp_all add: attempt_0 attempt_Suc)
  ultimately show ?case using step call by simp
qed

lemma call_function_valid:
  "get_function (registry self) name = Some func \<Longrightarrow> obj_truthy func
   \<Longrightarrow> get_schema (registry self) name = Some schema
   \<Longrightarrow> validate_parameters lib schema ps = Inr () \<Longrightarrow>
   call_function lib name ps N self w = retry_loop (obj_call func) ps N 0 None w"
  by (simp add: call_function_def)

lemmas registry_eval = caller_with_def register_function_def register_def install_def
  make_schema_def validate_function_definition_def FunctionSchema_init_def kwarg_def
  FunctionRegistry_init_def GemmaFunctionCaller_init_def update_system_prompt_def
  get_function_def get_schema_def py_in_def dict_has_def py_getitem_def ParameterType_of_def
  ParameterSchema_init_def param_keys_def

lemmas parameters_eval = validate_parameters_def py_iter_def dict_has_def

lemma retry_caller_function:
  "get_function (registry (caller_with ''retry_func'' f retry_schema)) ''retry_func'' = Some f"
  by (simp add: registry_eval retry_schema_def)

lemma retry_caller_schema:
  "get_schema (registry (caller_with ''retry_func'' f retry_schema)) ''retry_func''
     = Some \<lparr>fs_name = VStr ''retry_func'', fs_description = VStr ''A function to test retry logic'',
             fs_parameters = [], fs_required = VList []\<rparr>"
  by (simp add: registry_eval retry_schema_def)

lemma retry_schema_valid:
  "validate_parameters lib \<lparr>fs_name = VStr ''retry_func'',
     fs_description = VStr ''A function to test retry logic'', fs_parameters = [],
     fs_required = VList []\<rparr> [] = Inr ()"
  by (simp add: parameters_eval)

text \<open>
  C3, as stated: if every attempt raises, the call fails with the terminal error, any
  exception of the callable counting as a failed attempt. The loop catches with
  \<^verbatim>\<open>except Exception\<close>: a callable that raises \<^verbatim>\<open>KeyboardInterrupt\<close>, called with
  \<^verbatim>\<open>max_retries=3\<close>, is invoked once, and the call fails with that exception itself, not
  with the terminal \<^verbatim>\<open>RuntimeError\<close>.
\<close>

theorem uncaught_exception_counterexample:
  "call_function no_library ''retry_func'' [] 3
     (caller_with ''retry_func'' (Obj True (counted interrupted)) retry_schema) ((), 0)
   = (Inl (Raised (Exc False ''KeyboardInterrupt'' [])), ((), 1))"
  by (simp add: call_function_valid [OF retry_caller_function _ retry_caller_schema
        retry_schema_valid] retry_loop.simps counted_def interrupted_def)

text \<open>
  C3, amended. When the registered object is truthy, its schema is there and the
  arguments are valid, \<^verbatim>\<open>call_function\<close> invokes the callable at most \<^verbatim>\<open>max_retries\<close>
  times, and an attempt counts as failed when it raises an exception derived from
  \<^verbatim>\<open>Exception\<close>. If invocation \<open>k + 1\<close> (with \<open>k < max_retries\<close>) is the first that does not
  fail in this sense, the call ends after exactly \<open>k + 1\<close> invocations: with the value
  returned, if the invocation returns, and with the exception itself, if it raises one
  that does not derive from \<^verbatim>\<open>Exception\<close>. If the first \<^verbatim>\<open>max_retries\<close> invocations all
  fail, the call fails after exactly \<^verbatim>\<open>max_retries\<close> invocations with the one
  \<^verbatim>\<open>RuntimeError\<close> whose message names the last exception only. With \<^verbatim>\<open>max_retries\<close> at
  most 0 the callable is not invoked and the \<^verbatim>\<open>RuntimeError\<close> names \<^verbatim>\<open>None\<close>.
\<close>

theorem call_function_retries:
  assumes "get_function (registry self) name = Some (Obj True (counted func))"
    and "get_schema (registry self) name = Some schema"
    and "validate_parameters lib schema ps = Inr ()"
  shows "snd (snd (call_function lib name ps N self (w, 0))) \<le> nat N
    \<and> (\<forall>k v. k < nat N \<and> (\<forall>j<k. caught (attempt func ps w j)) \<and> attempt func ps w k = Inr v
         \<longrightarrow> call_function lib name ps N self (w, 0)
               = (Inr v, (world_after func ps (Suc k) w, Suc k)))
    \<and> (\<forall>k e. k < nat N \<and> (\<forall>j<k. caught (attempt func ps w j)) \<and> attempt func ps w k = Inl e
           \<and> \<not> derives_Exception e
         \<longrightarrow> call_function lib name ps N self (w, 0)
               = (Inl (Raised e), (world_after func ps (Suc k) w, Suc k)))
    \<and> (0 < N \<and> (\<forall>j<nat N. caught (attempt func ps w j))
         \<longrightarrow> call_function lib name ps N self (w, 0)
               = (Inl (terminal_error (Some (projl (attempt func ps w (nat N - 1))))),
                  (world_after func ps (nat N) w, nat N)))
    \<and> (N \<le> 0 \<longrightarrow> call_function lib name ps N self (w, 0) = (Inl (terminal_error None), (w, 0)))"
proof -
  have eq: "call_function lib name ps N self (w, 0) = retry_loop (counted func) ps N 0 None (w, 0)"
    using call_function_valid [OF assms(1) _ assms(2) assms(3)] by simp
  have "snd (snd (retry_loop (counted func) ps N 0 None (w, 0))) \<le> nat N"
    using retry_loop_count [of func ps N 0 None w 0] by simp
  moreover have "retry_loop (counted func) ps N 0 None (w, 0)
               = (Inr v, (world_after func ps (Suc k) w, Suc k))"
    if "k < nat N" "\<forall>j<k. caught (attempt func ps w j)" "attempt func ps w k = Inr v" for k v
    using retry_loop_leaves [of 0 k N func ps w None 0] that by (simp add: caught_def)
  moreover have "retry_loop (counted func) ps N 0 None (w, 0)
               = (Inl (Raised e), (world_after func ps (Suc k) w, Suc k))"
    if "k < nat N" "\<forall>j<k. caught (attempt func ps w j)" "attempt func ps w k = Inl e"
      "\<not> derives_Exception e" for k e
    using retry_loop_leaves [of 0 k N func ps w None 0] that by (simp add: caught_def)
  moreover have "retry_loop (counted func) ps N 0 None (w, 0)
               = (Inl (terminal_error (Some (projl (attempt func ps w (nat N - 1))))),
                  (world_after func ps (nat N) w, nat N))"
    if "0 < N" "\<forall>j<nat N. caught (attempt func ps w j)"
    using retry_loop_exhausted [of 0 "nat N" N func ps w None 0] that by simp
  moreover have "retry_loop (counted func) ps N 0 None (w, 0) = (Inl (terminal_error None), (w, 0))"
    if "N \<le> 0"
    using retry_loop_exhausted [of 0 0 N func ps w None 0] that by simp
  ultimately show ?thesis unfolding eq by blast
qed

theorem call_function_retries_witness:
  "call_function no_library ''retry_func'' [] 3
     (caller_with ''retry_func'' (Obj True (counted mock)) retry_schema)
     ([Inl (Exc True ''ValueError'' []), Inl (Exc True ''ValueError'' []), Inr (VStr ''success'')], 0)
     = (Inr (VStr ''success''), ([], 3))
   \<and> call_function no_library ''retry_func'' [] 2
       (caller_with ''retry_func'' (Obj True (counted always_failing)) retry_schema) ((), 0)
     = (Inl (RuntimeError (text_of ''Function execution failed: '')), ((), 2))
   \<and> call_function no_library ''retry_func'' [] 3
       (caller_with ''retry_func'' (Obj True (counted mock)) retry_schema)
       ([Inl (Exc True ''ValueError'' []), Inl (Exc False ''SystemExit'' [])], 0)
     = (Inl (Raised (Exc False ''SystemExit'' [])), ([], 2))"
proof -
  note facts = call_function_retries [where lib = no_library,
      OF retry_caller_function retry_caller_schema retry_schema_valid]
  let ?w = "[Inl (Exc True ''ValueError'' []), Inl (Exc True ''ValueError'' []), Inr (VStr ''success'')]"
  have a: "\<forall>j<2. caught (attempt mock [] ?w j)"
    by (simp add: attempt_def mock_def caught_def less_Suc_eq numeral_2_eq_2)
  have b: "attempt mock [] ?w 2 = Inr (VStr ''success'')"
    by (simp add: attempt_def mock_def numeral_2_eq_2)
  have w3: "world_after mock [] (Suc 2) ?w = []"
    by (simp add: mock_def numeral_2_eq_2)
  from facts [where func = mock and N = 3 and w = ?w, THEN conjunct2, THEN conjunct1,
      rule_format, of 2 "VStr ''success''"] a b w3
  have first: "call_function no_library ''retry_func'' [] 3
      (caller_with ''retry_func'' (Obj True (counted mock)) retry_schema) (?w, 0)
      = (Inr (VStr ''success''), ([], 3))"
    by simp
  have c: "\<forall>j<nat 2. caught (attempt always_failing [] () j)"
    by (simp add: attempt_def always_failing_def caught_def)
  from facts [where func = always_failing and N = 2 and w = "()", THEN conjunct2,
      THEN conjunct2, THEN conjunct2, THEN conjunct1] c
  have "call_function no_library ''retry_func'' [] 2
      (caller_with ''retry_func'' (Obj True (counted always_failing)) retry_schema) ((), 0)
      = (Inl (terminal_error (Some (projl (attempt always_failing [] () (nat 2 - 1))))),
         (world_after always_failing [] (nat 2) (), nat 2))"
    by simp
  then have second: "call_function no_library ''retry_func'' [] 2
      (caller_with ''retry_func'' (Obj True (counted always_failing)) retry_schema) ((), 0)
      = (Inl (RuntimeError (text_of ''Function execution failed: '')), ((), 2))"
    by (simp add: terminal_error_def attempt_def always_failing_def text_of_def)
  let ?v = "[Inl (Exc True ''ValueError'' []), Inl (Exc False ''SystemExit'' [])]"
  have d: "\<forall>j<1. caught (attempt mock [] ?v j)"
    by (simp add: attempt_def mock_def caught_def)
  have e: "attempt mock [] ?v 1 = Inl (Exc False ''SystemExit'' [])"
    by (simp add: attempt_def mock_def)
  have v2: "world_after mock [] (Suc 1) ?v = []"
    by (simp add: mock_def)
  from facts [where func = mock and N = 3 and w = ?v, THEN conjunct2, THEN conjunct2,
      THEN conjunct1, rule_format, of 1 "Exc False ''SystemExit'' []"] d e v2
  have third: "call_function no_library ''retry_func'' [] 3
      (caller_with ''retry_func'' (Obj True (counted mock)) retry_schema) (?v, 0)
      = (Inl (Raised (Exc False ''SystemExit'' [])), ([], 2))"
    by simp
  from first second third show ?thesis by simp
qed

section \<open>Validation failures in \<^verbatim>\<open>call_function\<close>\<close>

lemma ParameterSchema_init_not_runtime: "ParameterSchema_init kw \<noteq> Inl (RuntimeError m)"
proof -
  have "ParameterType_of t \<noteq> Inl (RuntimeError m)" for t
    by (cases t) (simp_all add: ParameterType_of_def)
  then have "map_sum id VKind (ParameterType_of t) \<noteq> Inl (RuntimeError m)" for t
    by (cases "ParameterType_of t") auto
  then show ?thesis
    by (auto simp: ParameterSchema_init_def split: option.splits pyval.splits sum.splits)
qed

lemma py_lt_not_runtime: "py_lt a b \<noteq> Inl (RuntimeError m)"
  by (simp add: py_lt_def split: option.splits)

lemma py_in_not_runtime: "py_in a b \<noteq> Inl (RuntimeError m)"
  by (simp add: py_in_def dict_has_def split: pyval.splits)

lemma validate_string_not_runtime: "validate_string lib self v \<noteq> Inl (RuntimeError m)"
  by (simp add: validate_string_def split: pyval.splits match_outcome.splits)

lemma validate_number_not_runtime: "validate_number self v \<noteq> Inl (RuntimeError m)"
  using py_lt_not_runtime [of v "ps_minimum self" m] py_lt_not_runtime [of "ps_maximum self" v m]
  by (auto simp: validate_number_def split: sum.splits)

lemma validate_boolean_not_runtime: "validate_boolean self v \<noteq> Inl (RuntimeError m)"
  by (simp add: validate_boolean_def)

lemma validate_enum_not_runtime: "validate_enum self v \<noteq> Inl (RuntimeError m)"
  using py_in_not_runtime [of v "ps_enum_values self" m]
  by (auto simp: validate_enum_def split: sum.splits)

lemmas leaf_not_runtime = validate_string_not_runtime validate_number_not_runtime
  validate_boolean_not_runtime validate_enum_not_runtime

lemma validate_not_runtime:
  "validate lib self v \<noteq> Inl (RuntimeError m)"
  "validate_items lib iv xs \<noteq> Inl (RuntimeError m)"
  "validate_properties lib props d \<noteq> Inl (RuntimeError m)"
proof (induction lib self v and lib iv xs and lib props d
    rule: validate_validate_items_validate_properties.induct)
  case (1 lib self val)
  show ?case
  proof (cases "val = VNone \<or> ps_type self = VKind STRING \<or> ps_type self = VKind NUMBER
      \<or> ps_type self = VKind BOOLEAN")
    case True
    then show ?thesis
      by (subst validate.simps(1)) (auto simp: leaf_not_runtime)
  next
    case leaf: False
    show ?thesis
    proof (cases "ps_type self = VKind ARRAY")
      case True
      have "validate_items lib item_validator xs \<noteq> Inl (RuntimeError m)"
        if "val = VList xs" "truthy (ps_items self)" "ps_items self = VDict kw"
          "ParameterSchema_init kw = Inr item_validator" for xs kw item_validator
        using "1.IH"(1) [of xs kw item_validator] leaf True that by simp
      with leaf True show ?thesis
        using ParameterSchema_init_not_runtime
        by (subst validate.simps(1)) (auto split: pyval.splits sum.splits)
    next
      case arr: False
      show ?thesis
      proof (cases "ps_type self = VKind OBJECT")
        case True
        have "validate_properties lib props d \<noteq> Inl (RuntimeError m)"
          if "val = VDict d" "truthy (ps_properties self)" "ps_properties self = VDict props"
          for d props
          using "1.IH"(2) [of d props] leaf arr True that by simp
        with leaf arr True show ?thesis
          by (subst validate.simps(1)) (auto split: pyval.splits)
      next
        case False
        with leaf arr show ?thesis
          by (subst validate.simps(1)) (simp add: leaf_not_runtime)
      qed
    qed
  qed
next
  case (2 lib item_validator)
  then show ?case by simp
next
  case (3 lib item_validator item rest)
  then show ?case by (auto split: sum.splits)
next
  case (4 lib d)
  then show ?case by simp
next
  case (5 lib entry rest d)
  show ?case
  proof (cases "map_of d (fst entry)")
    case None
    with "5.IH"(1) show ?thesis by simp
  next
    case (Some v)
    show ?thesis
    proof (cases "\<exists>kw pv. snd entry = VDict kw \<and> ParameterSchema_init kw = Inr pv")
      case True
      then obtain kw pv where kw: "snd entry = VDict kw" and pv: "ParameterSchema_init kw = Inr pv"
        by blast
      from "5.IH"(2) [OF Some kw pv] have a: "validate lib pv v \<noteq> Inl (RuntimeError m)" .
      show ?thesis
      proof (cases "validate lib pv v")
        case (Inl e)
        with a Some kw pv show ?thesis by simp
      next
        case (Inr u)
        with "5.IH"(3) [OF Some kw pv Inr] Some kw pv show ?thesis by simp
      qed
    next
      case False
      with Some show ?thesis
        using ParameterSchema_init_not_runtime
        by (auto split: pyval.splits sum.splits)
    qed
  qed
qed


lemma validate_provided_not_runtime: "validate_provided lib fs ps \<noteq> Inl (RuntimeError m)"
proof (induction ps)
  case Nil
  show ?case by simp
next
  case (Cons entry rest)
  show ?case
  proof (cases "map_of (fs_parameters fs) (fst entry)")
    case None
    then show ?thesis by simp
  next
    case (Some p)
    with Cons validate_not_runtime(1) [of lib p "snd entry" m] show ?thesis
      by (auto split: sum.splits pyerror.splits)
  qed
qed

lemma check_required_not_runtime: "check_required names ps \<noteq> Inl (RuntimeError m)"
  by (induction names) (auto simp: dict_has_def split: sum.splits pyval.splits)

lemma validate_parameters_not_runtime: "validate_parameters lib fs ps \<noteq> Inl (RuntimeError m)"
  using validate_provided_not_runtime [of lib fs ps m] check_required_not_runtime [of _ ps m]
  by (auto simp: validate_parameters_def py_iter_def split: sum.splits pyval.splits)

lemma test_caller_function:
  "get_function (registry (caller_with ''test_func'' f test_schema)) ''test_func'' = Some f"
  by (simp add: registry_eval test_schema_def)

lemma test_caller_schema:
  "get_schema (registry (caller_with ''test_func'' f test_schema)) ''test_func''
     = Some test_function_schema"
  by (simp add: registry_eval test_schema_def test_function_schema_def)

lemma test_invalid_age:
  "validate_parameters lib test_function_schema [(''name'', VStr ''Alice''), (''age'', VInt (- 1))]
     = Inl (ValidationError (text_of
         (''Invalid value for parameter '' @ quote @ ''age'' @ quote
            @ '': Value -1 is less than minimum 0'')))"
  by (simp add: parameters_eval test_function_schema_def validate.simps validate_string_def
      validate_number_def isinstance_int_float_def py_lt_def str_int_def digits.simps text_of_def)

text \<open>
  C4. When \<^verbatim>\<open>validate_parameters\<close> raises, \<^verbatim>\<open>call_function\<close> raises the same exception
  and leaves the world as it was: the callable is not invoked, whatever \<^verbatim>\<open>max_retries\<close>
  is. The exception is never the \<^verbatim>\<open>RuntimeError\<close> of exhausted retries. The arguments are
  validated when the lookups before have found a truthy object and its schema; for a
  registered object that is falsy they are not validated at all, the call fails with the
  \<^verbatim>\<open>ValueError\<close> of a function not found, and here too nothing is invoked.
\<close>

theorem validation_failure_not_retried:
  assumes "get_function (registry self) name = Some func"
    and "get_schema (registry self) name = Some schema"
    and "validate_parameters lib schema ps = Inl e"
  shows "(obj_truthy func
          \<longrightarrow> call_function lib name ps N self w = (Inl e, w) \<and> (\<forall>m. e \<noteq> RuntimeError m))
    \<and> (\<not> obj_truthy func
          \<longrightarrow> call_function lib name ps N self w
               = (Inl (ValueError (text_of ''Function '' @ text_of name @ text_of '' not found'')),
                  w))"
  using assms validate_parameters_not_runtime [of lib schema ps]
  by (auto simp: call_function_def)

theorem validation_failure_not_retried_witness:
  "call_function no_library ''test_func'' [(''name'', VStr ''Alice''), (''age'', VInt (- 1))] 3
     (caller_with ''test_func'' (Obj True (counted (returning (VStr ''Hello'')))) test_schema)
     ((), 0)
   = (Inl (ValidationError (text_of
         (''Invalid value for parameter '' @ quote @ ''age'' @ quote
            @ '': Value -1 is less than minimum 0''))), ((), 0))
   \<and> call_function no_library ''test_func'' [(''name'', VStr ''Alice''), (''age'', VInt (- 1))] 3
       (caller_with ''test_func'' (Obj False (counted (returning (VStr ''Hello'')))) test_schema)
       ((), 0)
     = (Inl (ValueError (text_of ''Function test_func not found'')), ((), 0))"
  using validation_failure_not_retried [OF
      test_caller_function [of "Obj True (counted (returning (VStr ''Hello'')))"]
      test_caller_schema test_invalid_age [of no_library], THEN conjunct1]
    validation_failure_not_retried [OF
      test_caller_function [of "Obj False (counted (returning (VStr ''Hello'')))"]
      test_caller_schema test_invalid_age [of no_library], THEN conjunct2]
  by (simp add: text_of_def)

section \<open>The order of the checks of \<^verbatim>\<open>validate_parameters\<close>\<close>

lemma check_required_present:
  "list_all (present params) req \<Longrightarrow> check_required (map VStr req @ rest) params
     = check_required rest params"
  by (induction req) (simp_all add: dict_has_def present_def)

lemma check_required_missing:
  "list_all (present params) pre \<Longrightarrow> \<not> present params n \<Longrightarrow>
   check_required (map VStr (pre @ n # post)) params = Inl (missing_error n)"
  using check_required_present [of params pre "map VStr (n # post)"]
  by (simp add: dict_has_def present_def missing_error_def)

lemma check_required_all_present:
  "list_all (present params) req \<Longrightarrow> check_required (map VStr req) params = Inr ()"
  using check_required_present [of params req "[]"] by simp

lemma validate_provided_prefix:
  "list_all (entry_ok lib fs) pre \<Longrightarrow> validate_provided lib fs (pre @ rest) = validate_provided lib fs rest"
  by (induction pre) (auto simp: entry_ok_def split: option.splits)

text \<open>
  C5, as stated: every key of the argument map is checked against the parameters before
  any value is validated. It is not: with \<^verbatim>\<open>{"name": "Alice", "age": -1, "unknown": 1}\<close>
  the invalid value of \<^verbatim>\<open>age\<close> is reported, although \<^verbatim>\<open>unknown\<close> is not a parameter.
\<close>

theorem unknown_key_before_values_counterexample:
  "map_of (fs_parameters test_function_schema) ''unknown'' = None
   \<and> validate_parameters no_library test_function_schema
       [(''name'', VStr ''Alice''), (''age'', VInt (- 1)), (''unknown'', VInt 1)]
     = Inl (ValidationError (text_of
         (''Invalid value for parameter '' @ quote @ ''age'' @ quote
            @ '': Value -1 is less than minimum 0'')))"
  by (simp add: parameters_eval test_function_schema_def validate.simps validate_string_def
      validate_number_def isinstance_int_float_def py_lt_def str_int_def digits.simps text_of_def)

text \<open>
  C5, amended: the required names are checked first, in the order of the required list,
  and the first missing one is reported whatever else the arguments contain. Then the
  argument map is traversed once, in insertion order; for each entry the key is looked up
  and then its value validated, and the first entry that fails either check ends the
  call: an unknown key with the unknown-parameter error, an invalid value with the nested
  message wrapped in an error that names the parameter. If no entry fails, the call
  succeeds.
\<close>

theorem validate_parameters_order:
  assumes "fs_required fs = VList (map VStr req)"
  shows "(\<forall>pre n post. req = pre @ n # post \<and> list_all (present params) pre \<and> \<not> present params n
            \<longrightarrow> validate_parameters lib fs params = Inl (missing_error n))
    \<and> (list_all (present params) req \<longrightarrow>
         (\<forall>pre k v post. params = pre @ (k, v) # post \<and> list_all (entry_ok lib fs) pre
              \<and> map_of (fs_parameters fs) k = None
            \<longrightarrow> validate_parameters lib fs params = Inl (unknown_error k))
       \<and> (\<forall>pre k v post p m. params = pre @ (k, v) # post \<and> list_all (entry_ok lib fs) pre
              \<and> map_of (fs_parameters fs) k = Some p \<and> validate lib p v = Inl (ValidationError m)
            \<longrightarrow> validate_parameters lib fs params = Inl (invalid_error k m))
       \<and> (list_all (entry_ok lib fs) params \<longrightarrow> validate_parameters lib fs params = Inr ()))"
proof (intro conjI allI impI)
  fix pre n post
  assume "req = pre @ n # post \<and> list_all (present params) pre \<and> \<not> present params n"
  with assms show "validate_parameters lib fs params = Inl (missing_error n)"
    by (simp add: validate_parameters_def py_iter_def check_required_missing del: map_append)
next
  assume req: "list_all (present params) req"
  then have vp: "validate_parameters lib fs params = validate_provided lib fs params"
    using assms by (simp add: validate_parameters_def py_iter_def check_required_all_present)
  {
    fix pre k v post
    assume "params = pre @ (k, v) # post \<and> list_all (entry_ok lib fs) pre
      \<and> map_of (fs_parameters fs) k = None"
    then show "validate_parameters lib fs params = Inl (unknown_error k)"
      unfolding vp by (simp add: validate_provided_prefix unknown_error_def)
  next
    fix pre k v post p m
    assume "params = pre @ (k, v) # post \<and> list_all (entry_ok lib fs) pre
      \<and> map_of (fs_parameters fs) k = Some p \<and> validate lib p v = Inl (ValidationError m)"
    then show "validate_parameters lib fs params = Inl (invalid_error k m)"
      unfolding vp by (simp add: validate_provided_prefix invalid_error_def)
  next
    assume "list_all (entry_ok lib fs) params"
    then show "validate_parameters lib fs params = Inr ()"
      unfolding vp using validate_provided_prefix [of lib fs params "[]"] by simp
  }
qed


theorem validate_parameters_order_witness:
  "validate_parameters no_library test_function_schema [] = Inl (missing_error ''name'')
   \<and> validate_parameters no_library test_function_schema [(''name'', VStr ''Alice''), (''unknown'', VInt 1)]
       = Inl (unknown_error ''unknown'')
   \<and> validate_parameters no_library test_function_schema [(''name'', VStr ''Alice''), (''age'', VInt (- 1))]
       = Inl (invalid_error ''age'' (text_of ''Value -1 is less than minimum 0''))
   \<and> validate_parameters no_library test_function_schema [(''name'', VStr ''Alice'')] = Inr ()
   \<and> validate_parameters no_library test_function_schema [(''name'', VStr ''Alice''), (''age'', VInt 25)]
       = Inr ()"
proof -
  let ?age = "\<lparr>ps_type = VKind NUMBER, ps_description = VStr ''The age parameter'',
            ps_required = VBool False, ps_minimum = VInt 0, ps_maximum = VNone, ps_pattern = VNone,
            ps_enum_values = VNone, ps_items = VNone, ps_properties = VNone\<rparr>"
  have req: "fs_required test_function_schema = VList (map VStr [''name''])"
    by (simp add: test_function_schema_def)
  note missing = validate_parameters_order [OF req, THEN conjunct1, rule_format]
  note rest = validate_parameters_order [OF req, THEN conjunct2, rule_format]
  have name_ok: "entry_ok no_library test_function_schema (''name'', VStr ''Alice'')"
    by (simp add: entry_ok_def test_function_schema_def validate.simps validate_string_def)
  have age_ok: "entry_ok no_library test_function_schema (''age'', VInt 25)"
    by (simp add: entry_ok_def test_function_schema_def validate.simps validate_number_def
        isinstance_int_float_def py_lt_def)
  have age_bad: "validate no_library ?age (VInt (- 1))
      = Inl (ValidationError (text_of ''Value -1 is less than minimum 0''))"
    by (simp add: validate.simps validate_number_def isinstance_int_float_def py_lt_def
        str_int_def digits.simps text_of_def)
  have age_known: "map_of (fs_parameters test_function_schema) ''age'' = Some ?age"
    by (simp add: test_function_schema_def)
  have unknown: "map_of (fs_parameters test_function_schema) ''unknown'' = None"
    by (simp add: test_function_schema_def)
  have 1: "validate_parameters no_library test_function_schema [] = Inl (missing_error ''name'')"
    by (rule missing [of "[]" "''name''" "[]" "[]"]) (simp add: present_def)
  have 2: "validate_parameters no_library test_function_schema [(''name'', VStr ''Alice''), (''unknown'', VInt 1)]
       = Inl (unknown_error ''unknown'')"
    by (rule rest [THEN conjunct1, rule_format,
          where pre = "[(''name'', VStr ''Alice'')]" and k = "''unknown''" and v = "VInt 1"
            and post = "[]"])
      (simp_all add: present_def name_ok unknown)
  have 3: "validate_parameters no_library test_function_schema [(''name'', VStr ''Alice''), (''age'', VInt (- 1))]
       = Inl (invalid_error ''age'' (text_of ''Value -1 is less than minimum 0''))"
    by (rule rest [THEN conjunct2, THEN conjunct1, rule_format,
          where pre = "[(''name'', VStr ''Alice'')]" and k = "''age''" and v = "VInt (- 1)"
            and post = "[]" and p = ?age])
      (simp_all add: present_def name_ok age_known age_bad)
  have 4: "validate_parameters no_library test_function_schema [(''name'', VStr ''Alice'')] = Inr ()"
    by (rule rest [THEN conjunct2, THEN conjunct2, rule_format])
      (simp_all add: present_def name_ok)
  have 5: "validate_parameters no_library test_function_schema [(''name'', VStr ''Alice''), (''age'', VInt 25)]
       = Inr ()"
    by (rule rest [THEN conjunct2, THEN conjunct2, rule_format])
      (simp_all add: present_def name_ok age_ok)
  from 1 2 3 4 5 show ?thesis by simp
qed

section \<open>The registry\<close>

lemma keys_update: "fst ` set (AList.update k v al) = insert k (fst ` set al)"
  using dom_update [of k v al] by (simp add: dom_map_of_conv_image_fst)

lemma keys_delete: "fst ` set (AList.delete k al) = fst ` set al - {k}"
  by (auto simp: AList.delete_eq)

lemma paired_install: "paired reg \<Longrightarrow> paired (snd (install name func schema reg))"
  by (simp add: install_def paired_def keys_update distinct_update split: sum.splits)

lemma paired_register: "paired reg \<Longrightarrow> paired (snd (register name func schema reg))"
  by (simp add: register_def paired_install)

lemma paired_update_function: "paired reg \<Longrightarrow> paired (snd (update_function name func schema reg))"
  by (simp add: update_function_def paired_install)

lemma paired_unregister:
  assumes "paired reg"
  shows "paired (snd (unregister name reg))"
proof (cases "map_of (functions_map reg) name = None")
  case True
  with assms show ?thesis by (simp add: unregister_def)
next
  case False
  then have "name \<in> fst ` set (functions_map reg)" by (simp add: map_of_eq_None_iff)
  with assms have "name \<in> fst ` set (schemas_map reg)" by (simp add: paired_def)
  then have "map_of (schemas_map reg) name \<noteq> None" by (simp add: map_of_eq_None_iff)
  with False have "snd (unregister name reg)
      = \<lparr>functions_map = AList.delete name (functions_map reg),
         schemas_map = AList.delete name (schemas_map reg)\<rparr>"
    unfolding unregister_def by (simp only: if_False snd_conv)
  with assms show ?thesis
    by (simp add: paired_def keys_delete distinct_delete)
qed

lemma paired_after_op: "paired reg \<Longrightarrow> paired (after_op op reg)"
  by (cases op) (simp_all add: paired_register paired_unregister paired_update_function)

lemma paired_after_ops: "paired reg \<Longrightarrow> paired (after_ops ops reg)"
  unfolding after_ops_def by (induction ops arbitrary: reg) (simp_all add: paired_after_op)

text \<open>
  C6. Starting from the empty registry, after any sequence of calls of \<^verbatim>\<open>register\<close>,
  \<^verbatim>\<open>unregister\<close>, \<^verbatim>\<open>update_function\<close>, \<^verbatim>\<open>get_function\<close>, \<^verbatim>\<open>get_schema\<close> and
  \<^verbatim>\<open>list_functions\<close>, successful or not, the callable map and the schema map have the
  same key set, and no name occurs twice in either.
\<close>

theorem registry_maps_paired: "paired (after_ops ops FunctionRegistry_init)"
  by (rule paired_after_ops) (simp add: paired_def FunctionRegistry_init_def)

theorem registry_maps_paired_witness:
  "paired (after_ops
     [Register ''test_func'' (1::nat) test_schema, Register ''test_func'' 2 test_schema,
      Update_function ''other'' 3 test_schema, Get_function ''test_func'',
      Register ''invalid_func'' 4 no_description_schema, Unregister ''test_func'',
      Unregister ''test_func'', List_functions]
     FunctionRegistry_init)"
  by (rule registry_maps_paired)

lemma install_failure_unchanged:
  "isl (fst (install name func schema reg)) \<Longrightarrow> snd (install name func schema reg) = reg"
  by (simp add: install_def split: sum.splits)

lemma install_invalid_definition:
  "validate_function_definition schema = Inl e \<Longrightarrow> install name func schema reg = (Inl e, reg)"
  by (simp add: install_def make_schema_def)

lemma one_function_registered: "map_of (functions_map one_function) ''test_func'' = Some 1"
  by (simp add: one_function_def registry_eval test_schema_def)

lemma one_function_other: "map_of (functions_map one_function) ''other'' = None"
  by (simp add: one_function_def registry_eval test_schema_def)

lemma no_description_invalid:
  "validate_function_definition no_description_schema
     = Inl (ValidationError (text_of ''Missing required field in function definition: description''))"
  by (simp add: validate_function_definition_def no_description_schema_def text_of_def)

text \<open>
  C7. \<^verbatim>\<open>register\<close> on a name that is present fails and returns the registry it was
  given, whatever callable is offered; \<^verbatim>\<open>update_function\<close> on an absent name fails and
  returns the registry it was given; when the raw definition does not validate, both
  fail and return the registry they were given; and indeed every failure of either
  leaves the registry as it was.
\<close>

theorem registry_failures_leave_state:
  "(map_of (functions_map reg) name \<noteq> None
      \<longrightarrow> register name func schema reg = (Inl (already_registered name), reg))
   \<and> (map_of (functions_map reg) name = None
      \<longrightarrow> update_function name func schema reg = (Inl (not_in_registry name), reg))
   \<and> (\<forall>e. validate_function_definition schema = Inl e
      \<longrightarrow> isl (fst (register name func schema reg)) \<and> snd (register name func schema reg) = reg
        \<and> isl (fst (update_function name func schema reg))
        \<and> snd (update_function name func schema reg) = reg)
   \<and> (isl (fst (register name func schema reg)) \<longrightarrow> snd (register name func schema reg) = reg)
   \<and> (isl (fst (update_function name func schema reg))
      \<longrightarrow> snd (update_function name func schema reg) = reg)"
  by (auto simp: register_def update_function_def already_registered_def not_in_registry_def
      install_failure_unchanged install_invalid_definition)


theorem registry_failures_leave_state_witness:
  "register ''test_func'' 2 test_schema one_function
     = (Inl (already_registered ''test_func''), one_function)
   \<and> get_function one_function ''test_func'' = Some 1
   \<and> update_function ''other'' 2 test_schema one_function
     = (Inl (not_in_registry ''other''), one_function)
   \<and> get_function one_function ''other'' = None
   \<and> isl (fst (register ''invalid_func'' 2 no_description_schema one_function))
   \<and> snd (register ''invalid_func'' 2 no_description_schema one_function) = one_function
   \<and> isl (fst (update_function ''test_func'' 2 no_description_schema one_function))
   \<and> snd (update_function ''test_func'' 2 no_description_schema one_function) = one_function"
proof -
  have registered: "map_of (functions_map one_function) ''test_func'' \<noteq> None"
    by (simp add: one_function_registered)
  note a = registry_failures_leave_state [where reg = one_function and name = "''test_func''"
      and func = 2 and schema = test_schema, THEN conjunct1, rule_format, OF registered]
  note b = registry_failures_leave_state [where reg = one_function and name = "''other''"
      and func = 2 and schema = test_schema, THEN conjunct2, THEN conjunct1, rule_format,
      OF one_function_other]
  note c = registry_failures_leave_state [where reg = one_function and name = "''invalid_func''"
      and func = 2 and schema = no_description_schema, THEN conjunct2, THEN conjunct2,
      THEN conjunct1, rule_format, OF no_description_invalid]
  note d = registry_failures_leave_state [where reg = one_function and name = "''test_func''"
      and func = 2 and schema = no_description_schema, THEN conjunct2, THEN conjunct2,
      THEN conjunct1, rule_format, OF no_description_invalid]
  from a b c d show ?thesis
    by (simp add: get_function_def one_function_registered one_function_other)
qed

section \<open>The capability listing\<close>

lemma foldl_lines:
  "foldl (\<lambda>prompt func. prompt @ text_of ''- '' @ text_of (fst func) @ text_of '': ''
       @ py_str (snd func) @ text_of [newline]) acc fs
   = acc @ concat (map listing_line fs)"
  by (induction fs arbitrary: acc) (simp_all add: listing_line_def)

lemma build_system_prompt_eq:
  "build_system_prompt reg =
     (if schemas_map reg = [] then no_functions_text
      else listing_header @ concat (map listing_line (list_functions reg)))"
  by (simp add: build_system_prompt_def foldl_lines no_functions_text_def listing_header_def
      list_functions_def)

lemma build_system_prompt_schemas:
  "schemas_map reg = schemas_map reg' \<Longrightarrow> build_system_prompt reg = build_system_prompt reg'"
  by (simp add: build_system_prompt_def list_functions_def)

lemma register_failure: "isl (fst (register name func schema reg)) \<Longrightarrow>
    snd (register name func schema reg) = reg"
  by (auto simp: register_def install_failure_unchanged)

lemma update_function_failure: "isl (fst (update_function name func schema reg)) \<Longrightarrow>
    snd (update_function name func schema reg) = reg"
  by (auto simp: update_function_def install_failure_unchanged)

lemma unregister_failure: "isl (fst (unregister name reg)) \<Longrightarrow>
    schemas_map (snd (unregister name reg)) = schemas_map reg"
  by (auto simp: unregister_def split: if_splits)

lemma register_function_cases:
  "(\<not> isl (fst (register_function name func schema self))
      \<longrightarrow> in_sync (snd (register_function name func schema self)))
   \<and> (isl (fst (register_function name func schema self))
      \<longrightarrow> snd (register_function name func schema self) = self)"
proof (cases "register name func schema (registry self)")
  case (Pair res reg)
  show ?thesis
  proof (cases res)
    case (Inl e)
    with Pair register_failure [of name func schema "registry self"] show ?thesis
      by (simp add: register_function_def)
  next
    case (Inr u)
    with Pair show ?thesis
      by (simp add: register_function_def in_sync_def get_system_prompt_def
          update_system_prompt_def)
  qed
qed

lemma caller_update_function_cases:
  "(\<not> isl (fst (caller_update_function name func schema self))
      \<longrightarrow> in_sync (snd (caller_update_function name func schema self)))
   \<and> (isl (fst (caller_update_function name func schema self))
      \<longrightarrow> snd (caller_update_function name func schema self) = self)"
proof (cases "update_function name func schema (registry self)")
  case (Pair res reg)
  show ?thesis
  proof (cases res)
    case (Inl e)
    with Pair update_function_failure [of name func schema "registry self"] show ?thesis
      by (simp add: caller_update_function_def)
  next
    case (Inr u)
    with Pair show ?thesis
      by (simp add: caller_update_function_def in_sync_def get_system_prompt_def
          update_system_prompt_def)
  qed
qed

lemma unregister_function_cases:
  "(\<not> isl (fst (unregister_function name self))
      \<longrightarrow> in_sync (snd (unregister_function name self)))
   \<and> (isl (fst (unregister_function name self))
      \<longrightarrow> get_system_prompt (snd (unregister_function name self)) = get_system_prompt self
        \<and> schemas_map (registry (snd (unregister_function name self)))
            = schemas_map (registry self))"
proof (cases "unregister name (registry self)")
  case (Pair res reg)
  show ?thesis
  proof (cases res)
    case (Inl e)
    with Pair unregister_failure [of name "registry self"] show ?thesis
      by (simp add: unregister_function_def get_system_prompt_def)
  next
    case (Inr u)
    with Pair show ?thesis
      by (simp add: unregister_function_def in_sync_def get_system_prompt_def
          update_system_prompt_def)
  qed
qed


text \<open>
  C8, as stated: after any call of \<^verbatim>\<open>register_function\<close>, \<^verbatim>\<open>unregister_function\<close> or
  \<^verbatim>\<open>update_function\<close> through the caller, \<^verbatim>\<open>get_system_prompt\<close> reflects the registry.
  The listing is recomputed only after the registry method has returned normally: when
  \<^verbatim>\<open>"f"\<close> was registered on the registry directly and \<^verbatim>\<open>register_function("f", ...)\<close>
  then fails as a duplicate, the listing still says that no functions are available
  while the registry lists \<^verbatim>\<open>f\<close>.
\<close>

theorem stale_listing_counterexample:
  "isl (fst (register_function ''f'' 2 fd_schema stale_caller))
   \<and> get_system_prompt (snd (register_function ''f'' 2 fd_schema stale_caller))
       = text_of ''No functions are currently available.''
   \<and> list_functions (registry (snd (register_function ''f'' 2 fd_schema stale_caller)))
       = [(''f'', VStr ''d'')]
   \<and> build_system_prompt (registry (snd (register_function ''f'' 2 fd_schema stale_caller)))
       = text_of (''Available functions:'' @ [newline, newline] @ ''- f: d'' @ [newline])"
  by (simp add: stale_caller_def registry_eval fd_schema_def get_system_prompt_def
      build_system_prompt_def list_functions_def text_of_def)

text \<open>
  C8, amended: the listing built from a registry is the fixed sentinel when
  \<^verbatim>\<open>list_functions()\<close> is empty, and otherwise the header followed by one line
  \<^verbatim>\<open>- name: description\<close> per function in \<^verbatim>\<open>list_functions()\<close> order. It is current
  after construction, it is recomputed whenever one of the three caller methods returns
  normally, and a call that fails from a state in which the listing is current leaves it
  current: so the listing is current after every call through the caller as long as it
  was before.
\<close>

theorem listing_follows_registry:
  "build_system_prompt reg =
     (if list_functions reg = [] then no_functions_text
      else listing_header @ concat (map listing_line (list_functions reg)))
   \<and> in_sync (GemmaFunctionCaller_init reg)
   \<and> (\<not> isl (fst (register_function name func schema self))
        \<longrightarrow> in_sync (snd (register_function name func schema self)))
   \<and> (\<not> isl (fst (unregister_function name self))
        \<longrightarrow> in_sync (snd (unregister_function name self)))
   \<and> (\<not> isl (fst (caller_update_function name func schema self))
        \<longrightarrow> in_sync (snd (caller_update_function name func schema self)))
   \<and> (in_sync self
        \<longrightarrow> in_sync (snd (register_function name func schema self))
          \<and> in_sync (snd (unregister_function name self))
          \<and> in_sync (snd (caller_update_function name func schema self)))"
proof -
  have a: "build_system_prompt reg =
     (if list_functions reg = [] then no_functions_text
      else listing_header @ concat (map listing_line (list_functions reg)))"
    by (simp add: build_system_prompt_eq list_functions_def)
  have b: "in_sync (GemmaFunctionCaller_init reg)"
    by (simp add: in_sync_def GemmaFunctionCaller_init_def get_system_prompt_def)
  have c: "in_sync (snd (register_function name func schema self))" if "in_sync self"
    using register_function_cases [of name func schema self] that by (cases "isl (fst (register_function name func schema self))") simp_all
  have d: "in_sync (snd (caller_update_function name func schema self))" if "in_sync self"
    using caller_update_function_cases [of name func schema self] that
    by (cases "isl (fst (caller_update_function name func schema self))") simp_all
  have e: "in_sync (snd (unregister_function name self))" if "in_sync self"
  proof (cases "isl (fst (unregister_function name self))")
    case True
    with unregister_function_cases [of name self]
    have "get_system_prompt (snd (unregister_function name self)) = get_system_prompt self"
      and "schemas_map (registry (snd (unregister_function name self)))
            = schemas_map (registry self)"
      by simp_all
    with that build_system_prompt_schemas show ?thesis
      unfolding in_sync_def by metis
  next
    case False
    with unregister_function_cases [of name self] show ?thesis by simp
  qed
  from a b c d e register_function_cases [of name func schema self]
    caller_update_function_cases [of name func schema self]
    unregister_function_cases [of name self]
  show ?thesis by simp
qed

theorem listing_follows_registry_witness:
  "get_system_prompt empty_caller = text_of ''No functions are currently available.''
   \<and> get_system_prompt fd_caller
       = text_of (''Available functions:'' @ [newline, newline] @ ''- f: d'' @ [newline])
   \<and> get_system_prompt (snd (unregister_function ''f'' fd_caller))
       = text_of ''No functions are currently available.''"
proof -
  note build = listing_follows_registry [THEN conjunct1]
  have e: "in_sync empty_caller"
    unfolding empty_caller_def by (rule listing_follows_registry [THEN conjunct2, THEN conjunct1])
  have f: "in_sync fd_caller"
    unfolding fd_caller_def
    using e by (rule listing_follows_registry [THEN conjunct2, THEN conjunct2, THEN conjunct2,
          THEN conjunct2, THEN conjunct2, rule_format, THEN conjunct1])
  have u: "in_sync (snd (unregister_function ''f'' fd_caller))"
    using f by (rule listing_follows_registry [where func = 0 and schema = "[]", THEN conjunct2,
          THEN conjunct2, THEN conjunct2, THEN conjunct2, THEN conjunct2, rule_format,
          THEN conjunct2, THEN conjunct1])
  have l0: "list_functions (registry empty_caller) = []"
    by (simp add: empty_caller_def registry_eval list_functions_def)
  have l1: "list_functions (registry fd_caller) = [(''f'', VStr ''d'')]"
    by (simp add: fd_caller_def empty_caller_def registry_eval fd_schema_def list_functions_def)
  have l2: "list_functions (registry (snd (unregister_function ''f'' fd_caller))) = []"
    by (simp add: fd_caller_def empty_caller_def registry_eval fd_schema_def list_functions_def
        unregister_function_def unregister_def)
  from e l0 build [of "registry empty_caller"]
  have 1: "get_system_prompt empty_caller = text_of ''No functions are currently available.''"
    by (simp add: in_sync_def no_functions_text_def)
  from f l1 build [of "registry fd_caller"]
  have 2: "get_system_prompt fd_caller
       = text_of (''Available functions:'' @ [newline, newline] @ ''- f: d'' @ [newline])"
    by (simp add: in_sync_def listing_header_def listing_line_def text_of_def)
  from u l2 build [of "registry (snd (unregister_function ''f'' fd_caller))"]
  have 3: "get_system_prompt (snd (unregister_function ''f'' fd_caller))
       = text_of ''No functions are currently available.''"
    by (simp add: in_sync_def no_functions_text_def)
  from 1 2 3 show ?thesis by simp
qed

section \<open>Failure messages of \<^verbatim>\<open>validate\<close>\<close>

lemma string_item_init: "ParameterSchema_init string_item = Inr string_schema"
  by (simp add: ParameterSchema_init_def string_item_def string_schema_def param_keys_def
      ParameterType_of_def kwarg_def)

lemma string_schema_int:
  "validate lib string_schema (VInt 1) = Inl (ValidationError (text_of ''Expected string, got <class 'int'>''))"
  by (simp add: validate.simps validate_string_def string_schema_def text_of_def)

lemma string_schema_str: "validate lib string_schema (VStr s) = Inr ()"
  by (simp add: validate.simps validate_string_def string_schema_def)

lemma array_of_strings_validate:
  "validate lib array_of_strings (VList xs) = validate_items lib string_schema xs"
proof -
  have "string_item \<noteq> []" by (simp add: string_item_def)
  then show ?thesis
    by (subst validate.simps) (simp add: array_of_strings_def string_item_init)
qed

lemma object_a_b_validate:
  "validate lib object_a_b (VDict d)
     = validate_properties lib [(''a'', VDict string_item), (''b'', VDict string_item)] d"
  by (subst validate.simps) (simp add: object_a_b_def)

lemma required_string_none:
  "validate lib (string_schema\<lparr>ps_required := VBool True\<rparr>) VNone
     = Inl (ValidationError (text_of ''Required parameter is missing''))"
  by (subst validate.simps) simp

text \<open>
  C9, as stated: every failure message names the expected kind and the actual kind or
  value, and the message of a nested failure identifies the element or property that
  failed. The array and object branches let the nested exception pass unchanged: the
  message is the same whether the first or the second element fails, and whether
  property \<^verbatim>\<open>a\<close> or property \<^verbatim>\<open>b\<close> fails; and the message for a missing required value
  names neither a kind nor a value.
\<close>

theorem nested_failure_counterexample:
  "validate no_library array_of_strings (VList [VInt 1, VStr ''a''])
     = Inl (ValidationError (text_of ''Expected string, got <class 'int'>''))
   \<and> validate no_library array_of_strings (VList [VStr ''a'', VInt 1])
     = Inl (ValidationError (text_of ''Expected string, got <class 'int'>''))
   \<and> validate no_library object_a_b (VDict [(''a'', VInt 1), (''b'', VStr ''x'')])
     = Inl (ValidationError (text_of ''Expected string, got <class 'int'>''))
   \<and> validate no_library object_a_b (VDict [(''a'', VStr ''x''), (''b'', VInt 1)])
     = Inl (ValidationError (text_of ''Expected string, got <class 'int'>''))
   \<and> validate no_library (string_schema\<lparr>ps_required := VBool True\<rparr>) VNone
     = Inl (ValidationError (text_of ''Required parameter is missing''))"
  by (simp add: array_of_strings_validate object_a_b_validate required_string_none
      string_item_init string_schema_int string_schema_str)

lemma validate_items_append:
  "list_all (\<lambda>x. validate lib iv x = Inr ()) pre \<Longrightarrow>
   validate_items lib iv (pre @ rest) = validate_items lib iv rest"
  by (induction pre) simp_all

lemma validate_properties_append:
  "validate_properties lib pre d = Inr () \<Longrightarrow>
   validate_properties lib (pre @ rest) d = validate_properties lib rest d"
proof (induction pre)
  case Nil
  show ?case by simp
next
  case (Cons entry pre)
  show ?case
  proof (cases "map_of d (fst entry)")
    case None
    with Cons show ?thesis by simp
  next
    case (Some v)
    with Cons.prems obtain kw pv where "snd entry = VDict kw" "ParameterSchema_init kw = Inr pv"
      "validate lib pv v = Inr ()" "validate_properties lib pre d = Inr ()"
      by (auto split: pyval.splits sum.splits)
    with Some Cons.IH show ?thesis by simp
  qed
qed

text \<open>
  C9, amended: a value of the wrong type for the String, Number, Boolean, Array or Object
  kind fails with a message that names the expected kind and the type of the value; a
  nested failure, of the first failing element of an Array value or of the first failing
  listed property of an Object value, is the exception of the nested validation itself,
  unchanged, so it does not say which element or property failed.
\<close>

theorem validate_messages:
  "(\<forall>self v. v \<noteq> VNone \<and> ps_type self = VKind STRING \<and> (\<forall>s. v \<noteq> VStr s)
       \<longrightarrow> validate lib self v = Inl (expected_error ''string'' v))
   \<and> (\<forall>self v. v \<noteq> VNone \<and> ps_type self = VKind NUMBER \<and> \<not> isinstance_int_float v
       \<longrightarrow> validate lib self v = Inl (expected_error ''number'' v))
   \<and> (\<forall>self v. v \<noteq> VNone \<and> ps_type self = VKind BOOLEAN \<and> \<not> isinstance_bool v
       \<longrightarrow> validate lib self v = Inl (expected_error ''boolean'' v))
   \<and> (\<forall>self v. v \<noteq> VNone \<and> ps_type self = VKind ARRAY \<and> (\<forall>xs. v \<noteq> VList xs)
       \<longrightarrow> validate lib self v = Inl (expected_error ''array'' v))
   \<and> (\<forall>self v. v \<noteq> VNone \<and> ps_type self = VKind OBJECT \<and> (\<forall>d. v \<noteq> VDict d)
       \<longrightarrow> validate lib self v = Inl (expected_error ''object'' v))
   \<and> (\<forall>self kw iv pre x post e. ps_type self = VKind ARRAY \<and> ps_items self = VDict kw \<and> kw \<noteq> []
         \<and> ParameterSchema_init kw = Inr iv \<and> list_all (\<lambda>y. validate lib iv y = Inr ()) pre
         \<and> validate lib iv x = Inl e
       \<longrightarrow> validate lib self (VList (pre @ x # post)) = Inl e)
   \<and> (\<forall>self props pre k kw post d v pv e. ps_type self = VKind OBJECT
         \<and> ps_properties self = VDict (pre @ (k, VDict kw) # post)
         \<and> validate_properties lib pre d = Inr () \<and> map_of d k = Some v
         \<and> ParameterSchema_init kw = Inr pv \<and> validate lib pv v = Inl e
       \<longrightarrow> validate lib self (VDict d) = Inl e)"
proof (intro conjI allI impI)
  fix self :: ParameterSchema and v
  assume "v \<noteq> VNone \<and> ps_type self = VKind STRING \<and> (\<forall>s. v \<noteq> VStr s)"
  then show "validate lib self v = Inl (expected_error ''string'' v)"
    by (cases v) (simp_all add: validate.simps validate_string_def expected_error_def text_of_def)
next
  fix self :: ParameterSchema and v
  assume "v \<noteq> VNone \<and> ps_type self = VKind NUMBER \<and> \<not> isinstance_int_float v"
  then show "validate lib self v = Inl (expected_error ''number'' v)"
    by (simp add: validate.simps validate_number_def expected_error_def text_of_def)
next
  fix self :: ParameterSchema and v
  assume "v \<noteq> VNone \<and> ps_type self = VKind BOOLEAN \<and> \<not> isinstance_bool v"
  then show "validate lib self v = Inl (expected_error ''boolean'' v)"
    by (simp add: validate.simps validate_boolean_def expected_error_def text_of_def)
next
  fix self :: ParameterSchema and v
  assume "v \<noteq> VNone \<and> ps_type self = VKind ARRAY \<and> (\<forall>xs. v \<noteq> VList xs)"
  then show "validate lib self v = Inl (expected_error ''array'' v)"
    by (cases v) (simp_all add: validate.simps expected_error_def text_of_def)
next
  fix self :: ParameterSchema and v
  assume "v \<noteq> VNone \<and> ps_type self = VKind OBJECT \<and> (\<forall>d. v \<noteq> VDict d)"
  then show "validate lib self v = Inl (expected_error ''object'' v)"
    by (cases v) (simp_all add: validate.simps expected_error_def text_of_def)
next
  fix self :: ParameterSchema and kw iv pre x post e
  assume h: "ps_type self = VKind ARRAY \<and> ps_items self = VDict kw \<and> kw \<noteq> []
         \<and> ParameterSchema_init kw = Inr iv \<and> list_all (\<lambda>y. validate lib iv y = Inr ()) pre
         \<and> validate lib iv x = Inl e"
  then have "validate lib self (VList (pre @ x # post)) = validate_items lib iv (pre @ x # post)"
    by (simp add: validate.simps [of lib self])
  also have "\<dots> = validate_items lib iv (x # post)"
    using h by (simp add: validate_items_append)
  also have "\<dots> = Inl e" using h by simp
  finally show "validate lib self (VList (pre @ x # post)) = Inl e" .
next
  fix self :: ParameterSchema and props :: "(string \<times> pyval) list" and pre k kw post d v pv e
  assume h: "ps_type self = VKind OBJECT
         \<and> ps_properties self = VDict (pre @ (k, VDict kw) # post)
         \<and> validate_properties lib pre d = Inr () \<and> map_of d k = Some v
         \<and> ParameterSchema_init kw = Inr pv \<and> validate lib pv v = Inl e"
  then have "validate lib self (VDict d) = validate_properties lib (pre @ (k, VDict kw) # post) d"
    by (simp add: validate.simps [of lib self])
  also have "\<dots> = validate_properties lib ((k, VDict kw) # post) d"
    using h by (simp add: validate_properties_append)
  also have "\<dots> = Inl e" using h by simp
  finally show "validate lib self (VDict d) = Inl e" .
qed


theorem validate_messages_witness:
  "validate no_library string_schema (VInt 1) = Inl (expected_error ''string'' (VInt 1))
   \<and> validate no_library array_of_strings (VList [VStr ''a'', VInt 1, VStr ''b''])
       = Inl (expected_error ''string'' (VInt 1))
   \<and> validate no_library object_a_b (VDict [(''b'', VInt 1), (''a'', VStr ''x'')])
       = Inl (expected_error ''string'' (VInt 1))"
proof -
  have 1: "validate no_library string_schema (VInt 1) = Inl (expected_error ''string'' (VInt 1))"
    by (rule validate_messages [THEN conjunct1, rule_format]) (simp add: string_schema_def)
  have "validate no_library array_of_strings (VList ([VStr ''a''] @ VInt 1 # [VStr ''b'']))
      = Inl (expected_error ''string'' (VInt 1))"
    by (rule validate_messages [THEN conjunct2, THEN conjunct2, THEN conjunct2, THEN conjunct2,
          THEN conjunct2, THEN conjunct1, rule_format,
          where kw = string_item and iv = string_schema])
      (simp add: array_of_strings_def string_item_init string_schema_str 1, simp add: string_item_def)
  then have 2: "validate no_library array_of_strings (VList [VStr ''a'', VInt 1, VStr ''b''])
      = Inl (expected_error ''string'' (VInt 1))"
    by simp
  have 3: "validate no_library object_a_b (VDict [(''b'', VInt 1), (''a'', VStr ''x'')])
      = Inl (expected_error ''string'' (VInt 1))"
    by (rule validate_messages [THEN conjunct2, THEN conjunct2, THEN conjunct2, THEN conjunct2,
          THEN conjunct2, THEN conjunct2, rule_format,
          where pre = "[(''a'', VDict string_item)]" and k = "''b''" and kw = string_item
            and post = "[]" and v = "VInt 1" and pv = string_schema])
      (simp add: object_a_b_def string_item_init string_schema_str 1)
  from 1 2 3 show ?thesis by simp
qed

section \<open>A required name bound to \<^verbatim>\<open>None\<close>\<close>

lemma validate_none_not_required: "\<not> truthy (ps_required p) \<Longrightarrow> validate lib p VNone = Inr ()"
  by (simp add: validate.simps)

text \<open>
  C10. Let a name of the required list have a \<^verbatim>\<open>ParameterSchema\<close> whose own
  \<^verbatim>\<open>required\<close> flag is \<^verbatim>\<open>False\<close>. An argument map that binds the name to \<^verbatim>\<open>None\<close> is
  accepted, provided the other required names are bound and the other entries are valid:
  the required pass only looks for the key, and \<^verbatim>\<open>validate\<close> returns normally on
  \<^verbatim>\<open>None\<close>.
\<close>

theorem required_name_bound_to_none:
  assumes "fs_required fs = VList (map VStr req)"
    and "name \<in> set req"
    and "map_of (fs_parameters fs) name = Some p"
    and "ps_required p = VBool False"
    and "list_all (present (pre @ (name, VNone) # post)) req"
    and "list_all (entry_ok lib fs) (pre @ post)"
  shows "validate lib p VNone = Inr ()
    \<and> validate_parameters lib fs (pre @ (name, VNone) # post) = Inr ()"
proof -
  have none: "validate lib p VNone = Inr ()"
    using assms(4) by (simp add: validate_none_not_required)
  with assms(3) have ok: "entry_ok lib fs (name, VNone)"
    by (simp add: entry_ok_def)
  from assms(6) have pre: "list_all (entry_ok lib fs) pre" and post: "list_all (entry_ok lib fs) post"
    by simp_all
  have "validate_parameters lib fs (pre @ (name, VNone) # post)
      = validate_provided lib fs (pre @ (name, VNone) # post)"
    using assms(1,5) by (simp add: validate_parameters_def py_iter_def check_required_all_present)
  also have "\<dots> = validate_provided lib fs ((name, VNone) # post)"
    using pre by (rule validate_provided_prefix)
  also have "\<dots> = validate_provided lib fs post"
    using assms(3) none by simp
  also have "\<dots> = Inr ()"
    using validate_provided_prefix [OF post, of "[]"] by simp
  finally show ?thesis using none by simp
qed

theorem required_name_bound_to_none_witness:
  "validate_parameters no_library test_function_schema [(''name'', VNone)] = Inr ()"
proof -
  let ?p = "\<lparr>ps_type = VKind STRING, ps_description = VStr ''The name parameter'',
            ps_required = VBool False, ps_minimum = VNone, ps_maximum = VNone, ps_pattern = VNone,
            ps_enum_values = VNone, ps_items = VNone, ps_properties = VNone\<rparr>"
  have "validate no_library ?p VNone = Inr ()
    \<and> validate_parameters no_library test_function_schema ([] @ (''name'', VNone) # []) = Inr ()"
    by (rule required_name_bound_to_none [where req = "[''name'']"])
      (simp_all add: test_function_schema_def present_def)
  then show ?thesis by simp
qed

end
